theory Spec2Isabelle
  imports Main
begin

section \<open>Strings and numbers of the host language\<close>

text \<open>
  The action is TypeScript. A string is modelled as a list of code units, kept to the
  code units below 256. \<open>trim\<close> is \<^verbatim>\<open>String.prototype.trim\<close>, \<open>split_on\<close> is
  \<^verbatim>\<open>s.split(c)\<close> for a one-character separator (it always returns at least one
  part), \<open>strip_v\<close> is \<^verbatim>\<open>s.replace(/^v/, '')\<close>.
\<close>

definition is_ws :: "char \<Rightarrow> bool" where
  "is_ws c \<longleftrightarrow> c \<in> set [CHR 0x09, CHR 0x0A, CHR 0x0B, CHR 0x0C, CHR 0x0D, CHR 0x20, CHR 0xA0]"

definition trim :: "string \<Rightarrow> string" where
  "trim s = rev (dropWhile is_ws (rev (dropWhile is_ws s)))"

fun split_on :: "char \<Rightarrow> string \<Rightarrow> string list" where
  "split_on c [] = [[]]"
| "split_on c (x # xs) =
     (if x = c then [] # split_on c xs
      else (case split_on c xs of [] \<Rightarrow> [[x]] | p # ps \<Rightarrow> (x # p) # ps))"

definition strip_v :: "string \<Rightarrow> string" where
  "strip_v s = (case s of [] \<Rightarrow> [] | c # r \<Rightarrow> if c = CHR ''v'' then r else s)"

definition is_digit :: "char \<Rightarrow> bool" where
  "is_digit c \<longleftrightarrow> c \<in> set ''0123456789''"

definition is_hex :: "char \<Rightarrow> bool" where
  "is_hex c \<longleftrightarrow> c \<in> set ''0123456789abcdefABCDEF''"

definition digit_val :: "char \<Rightarrow> nat" where
  "digit_val c =
     (if is_digit c then of_char c - 48
      else if c \<in> set ''abcdef'' then of_char c - 87
      else of_char c - 55)"

definition radix_value :: "nat \<Rightarrow> string \<Rightarrow> nat" where
  "radix_value b ds = foldl (\<lambda>a c. a * b + digit_val c) 0 ds"

definition digits_value :: "string \<Rightarrow> nat" where
  "digits_value ds = radix_value 10 ds"

text \<open>
  A Number is an IEEE double. The model is exact on the integers of magnitude at most
  \<open>2 ^ 53\<close>, all of which are doubles: \<open>Num n\<close>. Every other double (a fraction, a larger
  magnitude, an infinity) is kept symbolic: \<open>Other s k\<close> stands for the double of the
  numeric literal \<open>s\<close> after \<open>k\<close> additions of one. Such a double is only ever put through
  \<^verbatim>\<open>|| 0\<close>, incremented and printed, and the text the engine prints for
  \<^verbatim>\<open>Number(s) || 0\<close> after \<open>k\<close> additions of one is a parameter of the model
  (\<open>other_text\<close> below). Negative zero is falsy and is replaced by \<open>0\<close> before it is
  used, so it is identified with \<open>Num 0\<close>.
\<close>

datatype jsnum = NaN | Num int | Other string nat

definition to_double :: "string \<Rightarrow> int \<Rightarrow> jsnum" where
  "to_double s v =
     (if \<bar>v\<bar> \<le> 2 ^ 53 then Num v
      else if \<bar>v\<bar> = 2 ^ 53 + 1 then Num (sgn v * 2 ^ 53)
      else Other s 0)"

text \<open>
  The literals accepted by \<^verbatim>\<open>Number(s)\<close> (StringNumericLiteral): after trimming, the
  empty string is 0; \<^verbatim>\<open>0x\<close>, \<^verbatim>\<open>0o\<close>, \<^verbatim>\<open>0b\<close> prefix an unsigned integer in that
  radix; otherwise an optional sign, then \<^verbatim>\<open>Infinity\<close> or decimal digits with an
  optional fraction and an optional exponent. Everything else is \<open>NaN\<close>.
  \<open>decimal_literal\<close> returns the mantissa \<open>m\<close> and the exponent \<open>e\<close> of the value
  \<open>m * 10 ^ e\<close>.
\<close>

definition prefixed_literal :: "string \<Rightarrow> nat option" where
  "prefixed_literal r =
     (case r of
        c0 # c1 # ds \<Rightarrow>
          if c0 \<noteq> CHR ''0'' \<or> ds = [] then None
          else if c1 \<in> set ''xX'' \<and> list_all is_hex ds then Some (radix_value 16 ds)
          else if c1 \<in> set ''oO'' \<and> list_all (\<lambda>c. c \<in> set ''01234567'') ds
            then Some (radix_value 8 ds)
          else if c1 \<in> set ''bB'' \<and> list_all (\<lambda>c. c \<in> set ''01'') ds
            then Some (radix_value 2 ds)
          else None
      | _ \<Rightarrow> None)"

definition signed_integer :: "string \<Rightarrow> int option" where
  "signed_integer r =
     (let (neg, ds) = (case r of
                         c # ds \<Rightarrow> if c = CHR ''-'' then (True, ds)
                                   else if c = CHR ''+'' then (False, ds) else (False, r)
                       | [] \<Rightarrow> (False, []))
      in if ds = [] \<or> \<not> list_all is_digit ds then None
         else Some (if neg then - int (digits_value ds) else int (digits_value ds)))"

definition exponent_part :: "string \<Rightarrow> int option" where
  "exponent_part r =
     (case r of [] \<Rightarrow> Some 0
      | c # ds \<Rightarrow> if c \<in> set ''eE'' then signed_integer ds else None)"

definition decimal_literal :: "string \<Rightarrow> (nat \<times> int) option" where
  "decimal_literal r =
     (let ip = takeWhile is_digit r; r1 = dropWhile is_digit r;
          fp = (case r1 of [] \<Rightarrow> []
                | c # r2 \<Rightarrow> if c = CHR ''.'' then takeWhile is_digit r2 else []);
          r3 = (case r1 of [] \<Rightarrow> []
                | c # r2 \<Rightarrow> if c = CHR ''.'' then dropWhile is_digit r2 else r1)
      in if ip = [] \<and> fp = [] then None
         else (case exponent_part r3 of None \<Rightarrow> None
               | Some e \<Rightarrow> Some (digits_value (ip @ fp), e - int (length fp))))"

definition unsigned_literal :: "string \<Rightarrow> string \<Rightarrow> bool \<Rightarrow> jsnum" where
  "unsigned_literal s r neg =
     (if r = ''Infinity'' then Other s 0
      else (case decimal_literal r of None \<Rightarrow> NaN
            | Some (m, e) \<Rightarrow>
                let sg = (if neg then - 1 else 1) in
                if m = 0 then Num 0
                else if 0 \<le> e then to_double s (sg * int m * 10 ^ nat e)
                else if 10 ^ nat (- e) dvd m then to_double s (sg * int (m div 10 ^ nat (- e)))
                else Other s 0))"

definition Number :: "string \<Rightarrow> jsnum" where
  "Number s =
     (let r = trim s in
      case r of [] \<Rightarrow> Num 0
      | c # r' \<Rightarrow>
          (case prefixed_literal r of Some v \<Rightarrow> to_double s (int v)
           | None \<Rightarrow>
               if c = CHR ''-'' then unsigned_literal s r' True
               else if c = CHR ''+'' then unsigned_literal s r' False
               else unsigned_literal s r False))"

text \<open>
  \<^verbatim>\<open>x || 0\<close> on an array element that may be missing: \<^verbatim>\<open>undefined\<close>, \<open>NaN\<close> and
  zero are falsy. \<^verbatim>\<open>x + 1\<close> rounds to the nearest double, ties to even:
  \<open>2 ^ 53 + 1\<close> is not a double and rounds to \<open>2 ^ 53\<close>.
\<close>

fun or0 :: "jsnum option \<Rightarrow> jsnum" where
  "or0 None = Num 0"
| "or0 (Some NaN) = Num 0"
| "or0 (Some (Num n)) = Num n"
| "or0 (Some (Other s k)) = Other s k"

fun plus1 :: "jsnum \<Rightarrow> jsnum" where
  "plus1 NaN = NaN"
| "plus1 (Num n) = Num (if n = 2 ^ 53 then n else n + 1)"
| "plus1 (Other s k) = Other s (Suc k)"

text \<open>Number to string, as a template literal does it.\<close>

fun nat_text :: "nat \<Rightarrow> string" where
  "nat_text n =
     (if n < 10 then [''0123456789'' ! n]
      else nat_text (n div 10) @ [''0123456789'' ! (n mod 10)])"

definition int_text :: "int \<Rightarrow> string" where
  "int_text i = (if i < 0 then CHR ''-'' # nat_text (nat (- i)) else nat_text (nat i))"

fun number_text :: "(string \<Rightarrow> nat \<Rightarrow> string) \<Rightarrow> jsnum \<Rightarrow> string" where
  "number_text f NaN = ''NaN''"
| "number_text f (Num n) = int_text n"
| "number_text f (Other s k) = f s k"

definition nth_opt :: "'a list \<Rightarrow> nat \<Rightarrow> 'a option" where
  "nth_opt xs i = (if i < length xs then Some (xs ! i) else None)"

section \<open>Version resolver\<close>

text \<open>
  Lines 281 to 295 of \<^verbatim>\<open>determineNextVersion\<close>: the next version from the tag of the
  latest release and the strategy (\<open>None\<close> when the input is not set).
\<close>

definition bump :: "(string \<Rightarrow> nat \<Rightarrow> string) \<Rightarrow> string \<Rightarrow> string option \<Rightarrow> string" where
  "bump f tag_name versioningStrategy =
     (let currentVersion = strip_v tag_name;
          versionParts = map Number (split_on CHR ''.'' currentVersion);
          major = or0 (nth_opt versionParts 0);
          minor = or0 (nth_opt versionParts 1);
          patch = or0 (nth_opt versionParts 2)
      in if versioningStrategy = Some ''always-bump-major''
           then number_text f (plus1 major) @ ''.0.0''
         else if versioningStrategy = Some ''always-bump-minor''
           then number_text f major @ ''.'' @ number_text f (plus1 minor) @ ''.0''
         else number_text f major @ ''.'' @ number_text f minor @ ''.''
              @ number_text f (plus1 patch))"

section \<open>Data model\<close>

text \<open>
  A thrown value is an \<^verbatim>\<open>Error\<close> object; \<open>error_text\<close> is what a template literal
  prints for it (\<^verbatim>\<open>Error.prototype.toString\<close>).
\<close>

record exn =
  exn_name :: string
  exn_message :: string

definition error_text :: "exn \<Rightarrow> string" where
  "error_text e =
     (if exn_name e = [] then exn_message e
      else if exn_message e = [] then exn_name e
      else exn_name e @ '': '' @ exn_message e)"

record ActionInputs =
  token :: string
  repoUrl :: string
  releaseType :: "string option"
  path :: "string option"
  giteaApiUrl :: string
  configFile :: "string option"
  manifestFile :: "string option"
  proxyServer :: "string option"
  targetBranch :: string
  skipGiteaRelease :: "bool option"
  skipGiteaPullRequest :: "bool option"
  skipLabeling :: "bool option"
  includeComponentInTag :: "bool option"
  changelogHost :: string
  versioningStrategy :: "string option"
  releaseAs :: "string option"
  giteaOwner :: string
  giteaRepo :: string

record Release =
  id_field :: "int option"
  tagName :: string
  name :: string
  body :: string
  draft :: "bool option"
  prerelease :: "bool option"
  path :: string
  version :: "string option"
  major :: "int option"
  minor :: "int option"
  patch :: "int option"
  sha :: "string option"
  url :: "string option"
  uploadUrl :: "string option"

record PullRequest =
  number :: int
  title :: string
  body :: string
  headBranchName :: string
  baseBranchName :: string
  url :: string
  labels :: "string list option"

text \<open>An element of the commit listing: \<^verbatim>\<open>commit.sha\<close> and \<^verbatim>\<open>commit.commit.message\<close>.\<close>

record Commit =
  sha :: string
  message :: string

text \<open>
  What one run does to the outside is a trace of events, in order: log lines, outputs,
  the failure mark, and the requests sent to the hosting service. An output value keeps
  its type; the two JSON texts are kept as the value that \<^verbatim>\<open>JSON.stringify\<close> is
  applied to.
\<close>

datatype outval =
    Str string
  | Bool bool
  | Numv int
  | PRObject PullRequest
  | JsonStrings "string list"
  | JsonPRs "PullRequest list"

datatype request =
    ReposCreateRelease string string string bool bool
  | PullsCreate string string string string
  | IssuesAddLabels int "string list"
  | ReposGetLatestRelease
  | ReposListCommits "string option" nat
  | ReposGetBranch string
  | GitCreateRef string string

datatype event =
    Info string
  | Warning string
  | Error string
  | SetOutput string outval
  | SetFailed string
  | Request request

text \<open>
  The environment of a run: the raw value of every action input (empty when not
  supplied), the engine's printing of the doubles outside the exact range, and the
  answer of the hosting service to each request, which may depend on everything that
  happened before (the trace so far). Every request carries the same credentials, owner
  and repository, which are left out.
\<close>

record environment =
  input_value :: "string \<Rightarrow> string"
  other_text :: "string \<Rightarrow> nat \<Rightarrow> string"
  latest_release :: "event list \<Rightarrow> exn + string"
  list_commits :: "event list \<Rightarrow> string option \<Rightarrow> nat \<Rightarrow> exn + Commit list"
  get_branch :: "event list \<Rightarrow> string \<Rightarrow> exn + string"
  create_release ::
    "event list \<Rightarrow> string \<Rightarrow> string \<Rightarrow> string \<Rightarrow> bool \<Rightarrow> bool \<Rightarrow> exn + (int \<times> string \<times> string)"
  create_ref :: "event list \<Rightarrow> string \<Rightarrow> string \<Rightarrow> exn + unit"
  create_pull :: "event list \<Rightarrow> string \<Rightarrow> string \<Rightarrow> string \<Rightarrow> string \<Rightarrow> exn + (int \<times> string)"
  add_labels :: "event list \<Rightarrow> int \<Rightarrow> string list \<Rightarrow> exn + unit"

text \<open>
  An \<^verbatim>\<open>async\<close> function takes the trace and returns its result, a thrown value
  (\<open>Inl\<close>) or a value (\<open>Inr\<close>), with the extended trace. \<open>await\<close> continues with the
  value and passes a thrown value on.
\<close>

type_synonym 'a async = "(exn + 'a) \<times> event list"

definition await :: "'a async \<Rightarrow> ('a \<Rightarrow> event list \<Rightarrow> 'b async) \<Rightarrow> 'b async" where
  "await r k = (case r of (Inl e, t) \<Rightarrow> (Inl e, t) | (Inr x, t) \<Rightarrow> k x t)"

text \<open>\<^verbatim>\<open>x || y\<close> on an optional string: the empty string is falsy, as \<^verbatim>\<open>undefined\<close>.\<close>

fun truthy :: "string option \<Rightarrow> string option" where
  "truthy None = None"
| "truthy (Some s) = (if s = [] then None else Some s)"

section \<open>Inputs\<close>

text \<open>
  \<^verbatim>\<open>core.getInput\<close> and \<^verbatim>\<open>core.getBooleanInput\<close> of the actions toolkit: the value is
  trimmed, a required input that is empty throws, and a boolean input accepts the six
  spellings of YAML and throws on anything else.
\<close>

definition getInput :: "environment \<Rightarrow> string \<Rightarrow> string" where
  "getInput env nm = trim (input_value env nm)"

definition getInput_required :: "environment \<Rightarrow> string \<Rightarrow> exn + string" where
  "getInput_required env nm =
     (if input_value env nm = []
      then Inl \<lparr>exn_name = ''Error'',
                exn_message = ''Input required and not supplied: '' @ nm\<rparr>
      else Inr (trim (input_value env nm)))"

definition getBooleanInput :: "environment \<Rightarrow> string \<Rightarrow> exn + bool" where
  "getBooleanInput env nm =
     (let val = getInput env nm in
      if val \<in> set [''true'', ''True'', ''TRUE''] then Inr True
      else if val \<in> set [''false'', ''False'', ''FALSE''] then Inr False
      else Inl \<lparr>exn_name = ''TypeError'',
                exn_message = ''Input does not meet YAML 1.2 '' @ [CHR 0x22] @ ''Core Schema''
                  @ [CHR 0x22] @ '' specification: '' @ nm @ [CHR 0x0A]
                  @ ''Support boolean input list: `true | True | TRUE | false | False | FALSE`''\<rparr>)"

definition getOptionalInput :: "environment \<Rightarrow> string \<Rightarrow> string option" where
  "getOptionalInput env nm = truthy (Some (getInput env nm))"

definition getOptionalBooleanInput :: "environment \<Rightarrow> string \<Rightarrow> exn + bool option" where
  "getOptionalBooleanInput env nm =
     (let val = getInput env nm in
      if val = [] then Inr None
      else (case getBooleanInput env nm of Inl e \<Rightarrow> Inl e | Inr b \<Rightarrow> Inr (Some b)))"

definition DEFAULT_CONFIG_FILE :: string where
  "DEFAULT_CONFIG_FILE = ''release-please-config.json''"

definition DEFAULT_MANIFEST_FILE :: string where
  "DEFAULT_MANIFEST_FILE = ''.release-please-manifest.json''"

text \<open>
  The fields are evaluated in the order of the object literal; the first throw wins
  (\<open>or_throw\<close> passes it on).
\<close>

definition or_throw :: "exn + 'a \<Rightarrow> ('a \<Rightarrow> exn + 'b) \<Rightarrow> exn + 'b" where
  "or_throw r k = (case r of Inl e \<Rightarrow> Inl e | Inr x \<Rightarrow> k x)"

definition parseInputs :: "environment \<Rightarrow> exn + ActionInputs" where
  "parseInputs env =
     or_throw (getInput_required env ''token'') (\<lambda>tok.
     or_throw (getInput_required env ''gitea-api-url'') (\<lambda>api.
     or_throw (getOptionalBooleanInput env ''skip-gitea-release'') (\<lambda>skipRel.
     or_throw (getOptionalBooleanInput env ''skip-gitea-pull-request'') (\<lambda>skipPR.
     or_throw (getOptionalBooleanInput env ''skip-labeling'') (\<lambda>skipLab.
     or_throw (getOptionalBooleanInput env ''include-component-in-tag'') (\<lambda>incl.
     or_throw (getInput_required env ''gitea-owner'') (\<lambda>owner.
     or_throw (getInput_required env ''gitea-repo'') (\<lambda>repo.
      Inr \<lparr>token = tok,
           repoUrl = getInput env ''repo-url'',
           releaseType = getOptionalInput env ''release-type'',
           path = getOptionalInput env ''path'',
           giteaApiUrl = api,
           configFile = Some (case truthy (Some (getInput env ''config-file'')) of
                                None \<Rightarrow> DEFAULT_CONFIG_FILE | Some v \<Rightarrow> v),
           manifestFile = Some (case truthy (Some (getInput env ''manifest-file'')) of
                                  None \<Rightarrow> DEFAULT_MANIFEST_FILE | Some v \<Rightarrow> v),
           proxyServer = getOptionalInput env ''proxy-server'',
           targetBranch = (case getOptionalInput env ''target-branch'' of
                             None \<Rightarrow> ''main'' | Some v \<Rightarrow> v),
           skipGiteaRelease = skipRel,
           skipGiteaPullRequest = skipPR,
           skipLabeling = skipLab,
           includeComponentInTag = incl,
           changelogHost = getInput env ''changelog-host'',
           versioningStrategy = getOptionalInput env ''versioning-strategy'',
           releaseAs = getOptionalInput env ''release-as'',
           giteaOwner = owner,
           giteaRepo = repo\<rparr>))))))))"

section \<open>Hosting client\<close>

text \<open>
  The methods of \<^verbatim>\<open>GiteaClient\<close> that the run uses. Each sends one request (two for a
  labelled pull request), and on a failure logs an error line and throws the failure
  again; \<open>getLatestRelease\<close> alone returns \<^verbatim>\<open>null\<close> instead.
\<close>

definition createRelease :: "environment \<Rightarrow> Release \<Rightarrow> event list \<Rightarrow> Release async" where
  "createRelease env release t =
     (let dr = (case draft release of None \<Rightarrow> False | Some b \<Rightarrow> b);
          pre = (case prerelease release of None \<Rightarrow> False | Some b \<Rightarrow> b);
          t1 = t @ [Request (ReposCreateRelease (tagName release) (name release)
                               (Release.body release) dr pre)]
      in case create_release env t (tagName release) (name release) (Release.body release) dr pre of
           Inr (i, html_url, upload_url) \<Rightarrow>
             (Inr (release\<lparr>id_field := Some i, Release.url := Some html_url,
                            uploadUrl := Some upload_url\<rparr>), t1)
         | Inl e \<Rightarrow> (Inl e, t1 @ [Error (''Failed to create release: '' @ error_text e)]))"

definition createPullRequest ::
  "environment \<Rightarrow> PullRequest \<Rightarrow> event list \<Rightarrow> PullRequest async" where
  "createPullRequest env pr t =
     (let t1 = t @ [Request (PullsCreate (title pr) (PullRequest.body pr)
                               (headBranchName pr) (baseBranchName pr))]
      in case create_pull env t (title pr) (PullRequest.body pr)
                (headBranchName pr) (baseBranchName pr) of
           Inl e \<Rightarrow> (Inl e, t1 @ [Error (''Failed to create pull request: '' @ error_text e)])
         | Inr (n, html_url) \<Rightarrow>
             (case labels pr of
                None \<Rightarrow> (Inr (pr\<lparr>number := n, PullRequest.url := html_url\<rparr>), t1)
              | Some ls \<Rightarrow>
                  if ls = [] then (Inr (pr\<lparr>number := n, PullRequest.url := html_url\<rparr>), t1)
                  else (let t2 = t1 @ [Request (IssuesAddLabels n ls)]
                        in case add_labels env t1 n ls of
                             Inl e \<Rightarrow> (Inl e, t2 @ [Error (''Failed to create pull request: ''
                                                          @ error_text e)])
                           | Inr u \<Rightarrow>
                               (Inr (pr\<lparr>number := n, PullRequest.url := html_url\<rparr>), t2))))"

definition getLatestRelease :: "environment \<Rightarrow> event list \<Rightarrow> string option async" where
  "getLatestRelease env t =
     (let t1 = t @ [Request ReposGetLatestRelease]
      in case latest_release env t of
           Inr tag_name \<Rightarrow> (Inr (Some tag_name), t1)
         | Inl e \<Rightarrow> (Inr None, t1))"

definition listCommits ::
  "environment \<Rightarrow> string option \<Rightarrow> nat \<Rightarrow> event list \<Rightarrow> Commit list async" where
  "listCommits env sh perPage t =
     (let t1 = t @ [Request (ReposListCommits sh perPage)]
      in case list_commits env t sh perPage of
           Inr cs \<Rightarrow> (Inr cs, t1)
         | Inl e \<Rightarrow> (Inl e, t1 @ [Error (''Failed to list commits: '' @ error_text e)]))"

text \<open>The only part of the branch data that the run reads is \<^verbatim>\<open>branch.commit.sha\<close>.\<close>

definition getBranch :: "environment \<Rightarrow> string \<Rightarrow> event list \<Rightarrow> string async" where
  "getBranch env branch t =
     (let t1 = t @ [Request (ReposGetBranch branch)]
      in case get_branch env t branch of
           Inr head_sha \<Rightarrow> (Inr head_sha, t1)
         | Inl e \<Rightarrow> (Inl e, t1 @ [Error (''Failed to get branch: '' @ error_text e)]))"

definition createRef :: "environment \<Rightarrow> string \<Rightarrow> string \<Rightarrow> event list \<Rightarrow> unit async" where
  "createRef env ref sh t =
     (let t1 = t @ [Request (GitCreateRef (''refs/heads/'' @ ref) sh)]
      in case create_ref env t (''refs/heads/'' @ ref) sh of
           Inr u \<Rightarrow> (Inr (), t1)
         | Inl e \<Rightarrow> (Inl e, t1 @ [Error (''Failed to create ref: '' @ error_text e)]))"

section \<open>Version resolver and changelog generator\<close>

definition determineNextVersion ::
  "environment \<Rightarrow> string option \<Rightarrow> event list \<Rightarrow> string async" where
  "determineNextVersion env strategy t =
     await (getLatestRelease env t) (\<lambda>latestRelease t1.
       case latestRelease of
         None \<Rightarrow> (Inr ''1.0.0'', t1)
       | Some tag_name \<Rightarrow> (Inr (bump (other_text env) tag_name strategy), t1))"

text \<open>
  The loop of \<^verbatim>\<open>generateChangelog\<close> over the commits, with the text built so far.
  \<open>first_line\<close> is \<^verbatim>\<open>message.split('\n')[0]\<close>.
\<close>

definition first_line :: "string \<Rightarrow> string" where
  "first_line m = takeWhile (\<lambda>c. c \<noteq> CHR 0x0A) m"

fun changelog_loop :: "string option \<Rightarrow> Commit list \<Rightarrow> string \<Rightarrow> string" where
  "changelog_loop fromTag [] changelog = changelog"
| "changelog_loop fromTag (commit # commits) changelog =
     (if truthy fromTag \<noteq> None \<and> Some (Commit.sha commit) = fromTag then changelog
      else changelog_loop fromTag commits
             (changelog @ ''* '' @ first_line (message commit) @ '' (''
                @ take 7 (Commit.sha commit) @ '')'' @ [CHR 0x0A]))"

definition generateChangelog ::
  "environment \<Rightarrow> string option \<Rightarrow> string \<Rightarrow> event list \<Rightarrow> string async" where
  "generateChangelog env fromTag toSha t =
     await (listCommits env (Some toSha) 100 t) (\<lambda>commits t1.
       (Inr (changelog_loop fromTag commits (''## Changes'' @ [CHR 0x0A, CHR 0x0A])), t1))"

section \<open>Output formatter\<close>

definition setPathOutput :: "string \<Rightarrow> string \<Rightarrow> outval \<Rightarrow> event list \<Rightarrow> event list" where
  "setPathOutput p key v t =
     (if p = ''.'' then t @ [SetOutput key v] else t @ [SetOutput (p @ ''--'' @ key) v])"

text \<open>
  \<^verbatim>\<open>Object.entries(release)\<close>, in the order in which \<open>main\<close> and \<open>createRelease\<close> write
  the keys; a field that is not set has the value \<^verbatim>\<open>undefined\<close> (\<open>None\<close>).
\<close>

definition entries :: "Release \<Rightarrow> (string \<times> outval option) list" where
  "entries r =
     [(''tagName'', Some (Str (tagName r))),
      (''name'', Some (Str (name r))),
      (''body'', Some (Str (Release.body r))),
      (''draft'', map_option Bool (draft r)),
      (''prerelease'', map_option Bool (prerelease r)),
      (''path'', Some (Str (Release.path r))),
      (''version'', map_option Str (version r)),
      (''major'', map_option Numv (major r)),
      (''minor'', map_option Numv (minor r)),
      (''patch'', map_option Numv (patch r)),
      (''sha'', map_option Str (Release.sha r)),
      (''id'', map_option Numv (id_field r)),
      (''url'', map_option Str (Release.url r)),
      (''uploadUrl'', map_option Str (uploadUrl r))]"

definition output_key :: "string \<Rightarrow> string" where
  "output_key rawKey =
     (if rawKey = ''tagName'' then ''tag_name''
      else if rawKey = ''uploadUrl'' then ''upload_url''
      else if rawKey = ''url'' then ''html_url''
      else rawKey)"

fun output_entries :: "string \<Rightarrow> (string \<times> outval option) list \<Rightarrow> event list \<Rightarrow> event list" where
  "output_entries p [] t = t"
| "output_entries p ((rawKey, v) # es) t =
     output_entries p es
       (case v of None \<Rightarrow> t | Some x \<Rightarrow> setPathOutput p (output_key rawKey) x t)"

text \<open>The loop over the releases, with the paths collected so far and the trace.\<close>

fun output_release_loop ::
  "Release list \<Rightarrow> string list \<Rightarrow> event list \<Rightarrow> string list \<times> event list" where
  "output_release_loop [] pathsReleased t = (pathsReleased, t)"
| "output_release_loop (release # releases) pathsReleased t =
     (let p = (if Release.path release = [] then ''.'' else Release.path release);
          t1 = (if p \<noteq> [] then setPathOutput p ''release_created'' (Bool True) t else t);
          ps1 = (if p \<noteq> [] then pathsReleased @ [p] else pathsReleased)
      in output_release_loop releases ps1 (output_entries p (entries release) t1))"

text \<open>\<^verbatim>\<open>xs.filter(x => x !== undefined)\<close>, on a list whose elements may be undefined.\<close>

definition defined :: "'a option list \<Rightarrow> 'a list" where
  "defined xs = map the (filter (\<lambda>x. x \<noteq> None) xs)"

definition outputReleases :: "Release option list \<Rightarrow> event list \<Rightarrow> event list" where
  "outputReleases releases t =
     (let rs = defined releases;
          t1 = t @ [SetOutput ''releases_created'' (Bool (0 < length rs))];
          (pathsReleased, t2) = output_release_loop rs [] t1
      in t2 @ [SetOutput ''paths_released'' (JsonStrings pathsReleased)])"

definition outputPRs :: "PullRequest option list \<Rightarrow> event list \<Rightarrow> event list" where
  "outputPRs prs t =
     (let ps = defined prs;
          t1 = t @ [SetOutput ''prs_created'' (Bool (0 < length ps))]
      in case ps of [] \<Rightarrow> t1
         | pr # rest \<Rightarrow> t1 @ [SetOutput ''pr'' (PRObject pr), SetOutput ''prs'' (JsonPRs ps)])"

section \<open>Release orchestrator\<close>

text \<open>
  The bodies of the two guarded blocks of \<open>main\<close>. \<open>next_version\<close> is the expression
  \<^verbatim>\<open>inputs.releaseAs || await determineNextVersion(client, inputs.versioningStrategy)\<close>
  that both blocks start with.
\<close>

definition next_version :: "environment \<Rightarrow> ActionInputs \<Rightarrow> event list \<Rightarrow> string async" where
  "next_version env inputs t =
     (case truthy (releaseAs inputs) of
        Some v \<Rightarrow> (Inr v, t)
      | None \<Rightarrow> determineNextVersion env (versioningStrategy inputs) t)"

definition release_branch :: "environment \<Rightarrow> ActionInputs \<Rightarrow> event list \<Rightarrow> unit async" where
  "release_branch env inputs t0 =
     await (next_version env inputs (t0 @ [Info ''Creating release''])) (\<lambda>nextVersion t1.
     await (getBranch env (targetBranch inputs) t1) (\<lambda>branch_sha t2.
     await (getLatestRelease env t2) (\<lambda>latestRelease t3.
     await (generateChangelog env (truthy latestRelease) branch_sha t3) (\<lambda>changelog t4.
       let tagName =
             (case truthy (ActionInputs.path inputs) of
                Some p \<Rightarrow> if includeComponentInTag inputs = Some True
                          then p @ ''-v'' @ nextVersion else ''v'' @ nextVersion
              | None \<Rightarrow> ''v'' @ nextVersion);
           release =
             \<lparr>id_field = None, tagName = tagName, name = ''Release '' @ nextVersion,
              body = changelog, draft = Some False, prerelease = Some False,
              path = (case truthy (ActionInputs.path inputs) of None \<Rightarrow> ''.'' | Some p \<Rightarrow> p),
              version = Some nextVersion, major = None, minor = None, patch = None,
              sha = None, url = None, uploadUrl = None\<rparr>
       in await (createRelease env release t4) (\<lambda>createdRelease t5.
            (Inr (), outputReleases [Some createdRelease] t5))))))"

definition pr_branch :: "environment \<Rightarrow> ActionInputs \<Rightarrow> event list \<Rightarrow> unit async" where
  "pr_branch env inputs t0 =
     await (next_version env inputs (t0 @ [Info ''Creating pull request''])) (\<lambda>nextVersion t1.
     await (getBranch env (targetBranch inputs) t1) (\<lambda>branch_sha t2.
       let releaseBranchName = ''release-please--'' @ targetBranch inputs @ ''--'' @ nextVersion;
           t3 = (case createRef env releaseBranchName branch_sha t2 of
                   (Inr u, t) \<Rightarrow> t
                 | (Inl e, t) \<Rightarrow>
                     t @ [Warning (''Branch '' @ releaseBranchName @ '' may already exist'')]);
           pr = \<lparr>number = 0, title = ''chore: release '' @ nextVersion,
                 body = ''Release '' @ nextVersion @ [CHR 0x0A, CHR 0x0A]
                        @ ''This PR was generated by release-please for Gitea.'',
                 headBranchName = releaseBranchName,
                 baseBranchName = targetBranch inputs,
                 url = [],
                 labels = Some (if skipLabeling inputs = Some True then []
                                else [''autorelease: pending''])\<rparr>
       in await (createPullRequest env pr t3) (\<lambda>createdPR t4.
            (Inr (), outputPRs [Some createdPR] t4))))"

text \<open>\<open>main\<close> returns the trace of the run.\<close>

definition main :: "environment \<Rightarrow> event list" where
  "main env =
     (case parseInputs env of
        Inl e \<Rightarrow> [SetFailed (''release-please failed: '' @ error_text e)]
      | Inr inputs \<Rightarrow>
          (case await (if skipGiteaRelease inputs = Some True
                       then (Inr (), [Info ''Starting Gitea release-please process''])
                       else release_branch env inputs
                              [Info ''Starting Gitea release-please process''])
                  (\<lambda>u t. if skipGiteaPullRequest inputs = Some True then (Inr (), t)
                         else pr_branch env inputs t) of
             (Inl e, t) \<Rightarrow> t @ [SetFailed (''release-please failed: '' @ error_text e)]
           | (Inr u, t) \<Rightarrow> t @ [Info ''Release-please process completed successfully'']))"

section \<open>Notions used to state the properties\<close>



text \<open>The bullet line of one commit in the changelog.\<close>

definition bullet :: "Commit \<Rightarrow> string" where
  "bullet c = ''* '' @ first_line (message c) @ '' ('' @ take 7 (Commit.sha c) @ '')'' @ [CHR 0x0A]"

text \<open>
  What the formatter is said to emit for one release: every key carries the prefix
  \<open>key_prefix\<close> of the path (none for the root \<^verbatim>\<open>.\<close>, otherwise the path and two
  dashes), the keys are the external names, and a field without a value emits nothing.
\<close>

fun emit :: "string \<Rightarrow> string \<Rightarrow> outval option \<Rightarrow> event list" where
  "emit pfx key None = []"
| "emit pfx key (Some v) = [SetOutput (pfx @ key) v]"

definition key_prefix :: "string \<Rightarrow> string" where
  "key_prefix p = (if p = ''.'' then [] else p @ ''--'')"

definition release_outputs :: "Release \<Rightarrow> event list" where
  "release_outputs r =
     (let pfx = key_prefix (Release.path r) in
      [SetOutput (pfx @ ''release_created'') (Bool True)]
      @ emit pfx ''tag_name'' (Some (Str (tagName r)))
      @ emit pfx ''name'' (Some (Str (name r)))
      @ emit pfx ''body'' (Some (Str (Release.body r)))
      @ emit pfx ''draft'' (map_option Bool (draft r))
      @ emit pfx ''prerelease'' (map_option Bool (prerelease r))
      @ emit pfx ''path'' (Some (Str (Release.path r)))
      @ emit pfx ''version'' (map_option Str (version r))
      @ emit pfx ''major'' (map_option Numv (major r))
      @ emit pfx ''minor'' (map_option Numv (minor r))
      @ emit pfx ''patch'' (map_option Numv (patch r))
      @ emit pfx ''sha'' (map_option Str (Release.sha r))
      @ emit pfx ''id'' (map_option Numv (id_field r))
      @ emit pfx ''html_url'' (map_option Str (Release.url r))
      @ emit pfx ''upload_url'' (map_option Str (uploadUrl r)))"

text \<open>
  Projections of a trace: the info lines, the warnings, the error lines, the requests
  and the outputs, each in order; \<open>output_values k\<close> is the list of values set for the
  output \<open>k\<close>, and \<open>events_of t0 r\<close> is what a step that returned \<open>r\<close> added to the
  trace \<open>t0\<close>.
\<close>

definition events_of :: "event list \<Rightarrow> 'a async \<Rightarrow> event list" where
  "events_of t0 r = drop (length t0) (snd r)"

primrec infos :: "event list \<Rightarrow> string list" where
  "infos [] = []"
| "infos (ev # t) = (case ev of Info m \<Rightarrow> m # infos t | _ \<Rightarrow> infos t)"

primrec warnings :: "event list \<Rightarrow> string list" where
  "warnings [] = []"
| "warnings (ev # t) = (case ev of Warning m \<Rightarrow> m # warnings t | _ \<Rightarrow> warnings t)"

primrec errors :: "event list \<Rightarrow> string list" where
  "errors [] = []"
| "errors (ev # t) = (case ev of Error m \<Rightarrow> m # errors t | _ \<Rightarrow> errors t)"

primrec requests :: "event list \<Rightarrow> request list" where
  "requests [] = []"
| "requests (ev # t) = (case ev of Request q \<Rightarrow> q # requests t | _ \<Rightarrow> requests t)"

primrec outputs :: "event list \<Rightarrow> (string \<times> outval) list" where
  "outputs [] = []"
| "outputs (ev # t) = (case ev of SetOutput k v \<Rightarrow> (k, v) # outputs t | _ \<Rightarrow> outputs t)"

definition output_values :: "string \<Rightarrow> event list \<Rightarrow> outval list" where
  "output_values k t = map snd (filter (\<lambda>kv. fst kv = k) (outputs t))"

definition only_outputs :: "event list \<Rightarrow> bool" where
  "only_outputs es \<longleftrightarrow> infos es = [] \<and> warnings es = [] \<and> errors es = [] \<and> requests es = []"

text \<open>The requests that only the pull-request branch sends.\<close>

fun pr_request :: "request \<Rightarrow> bool" where
  "pr_request (GitCreateRef r s) = True"
| "pr_request (PullsCreate ti bd h bs) = True"
| "pr_request (IssuesAddLabels n ls) = True"
| "pr_request q = False"

text \<open>
  The values that the two blocks of \<open>main\<close> work with: the version that
  \<^verbatim>\<open>inputs.releaseAs || await determineNextVersion(...)\<close> resolves to and the requests it
  sends, the tag name of the release, the name of the release branch, the pull request
  that is submitted and its request, and the events of the guarded ref creation.
\<close>

definition resolved :: "environment \<Rightarrow> ActionInputs \<Rightarrow> event list \<Rightarrow> string" where
  "resolved env inputs t =
     (case truthy (releaseAs inputs) of
        Some v \<Rightarrow> v
      | None \<Rightarrow> (case latest_release env t of Inl e \<Rightarrow> ''1.0.0''
                 | Inr tg \<Rightarrow> bump (other_text env) tg (versioningStrategy inputs)))"

definition resolver_requests :: "ActionInputs \<Rightarrow> event list" where
  "resolver_requests inputs =
     (case truthy (releaseAs inputs) of Some v \<Rightarrow> [] | None \<Rightarrow> [Request ReposGetLatestRelease])"

definition release_tag :: "ActionInputs \<Rightarrow> string \<Rightarrow> string" where
  "release_tag inputs v =
     (case truthy (ActionInputs.path inputs) of
        Some p \<Rightarrow> if includeComponentInTag inputs = Some True then p @ ''-v'' @ v else ''v'' @ v
      | None \<Rightarrow> ''v'' @ v)"

definition release_branch_name :: "ActionInputs \<Rightarrow> string \<Rightarrow> string" where
  "release_branch_name inputs v = ''release-please--'' @ targetBranch inputs @ ''--'' @ v"

definition pr_labels :: "ActionInputs \<Rightarrow> string list" where
  "pr_labels inputs = (if skipLabeling inputs = Some True then [] else [''autorelease: pending''])"

definition pull_request :: "ActionInputs \<Rightarrow> string \<Rightarrow> PullRequest" where
  "pull_request inputs v =
     \<lparr>number = 0, title = ''chore: release '' @ v,
      body = ''Release '' @ v @ [CHR 0x0A, CHR 0x0A]
             @ ''This PR was generated by release-please for Gitea.'',
      headBranchName = release_branch_name inputs v,
      baseBranchName = targetBranch inputs,
      url = [],
      labels = Some (pr_labels inputs)\<rparr>"

definition pulls_create :: "PullRequest \<Rightarrow> request" where
  "pulls_create pr =
     PullsCreate (title pr) (PullRequest.body pr) (headBranchName pr) (baseBranchName pr)"

definition ref_events :: "environment \<Rightarrow> event list \<Rightarrow> string \<Rightarrow> string \<Rightarrow> event list" where
  "ref_events env t nm b =
     Request (GitCreateRef (''refs/heads/'' @ nm) b)
     # (case create_ref env t (''refs/heads/'' @ nm) b of
          Inr u \<Rightarrow> []
        | Inl e \<Rightarrow> [Error (''Failed to create ref: '' @ error_text e),
                    Warning (''Branch '' @ nm @ '' may already exist'')])"

text \<open>
  The two guarded blocks of \<open>main\<close> with their guards, run from the start of the trace:
  the release phase, and the pull-request phase after it.
\<close>

definition start_trace :: "event list" where
  "start_trace = [Info ''Starting Gitea release-please process'']"

definition release_phase :: "environment \<Rightarrow> ActionInputs \<Rightarrow> unit async" where
  "release_phase env inputs =
     (if skipGiteaRelease inputs = Some True then (Inr (), start_trace)
      else release_branch env inputs start_trace)"

definition pr_phase :: "environment \<Rightarrow> ActionInputs \<Rightarrow> unit async" where
  "pr_phase env inputs =
     (if skipGiteaPullRequest inputs = Some True then (Inr (), snd (release_phase env inputs))
      else pr_branch env inputs (snd (release_phase env inputs)))"

section \<open>Example environments\<close>

text \<open>
  Concrete environments on which the properties below are exercised: the inputs are
  given as a list of pairs, the latest release as the answer of the service, and every
  other request succeeds.
\<close>

definition demo_exn :: exn where
  "demo_exn = \<lparr>exn_name = ''HttpError'', exn_message = ''Not Found''\<rparr>"

definition demo_commits :: "Commit list" where
  "demo_commits =
     [\<lparr>sha = ''c3c3c3c3c3c3'', message = ''feat: third'' @ [CHR 0x0A] @ ''details''\<rparr>,
      \<lparr>sha = ''b2b2b2b2b2b2'', message = ''fix: second''\<rparr>,
      \<lparr>sha = ''a1a1a1a1a1a1'', message = ''chore: first''\<rparr>]"

definition demo_env ::
  "(string \<times> string) list \<Rightarrow> exn + string \<Rightarrow> string list \<Rightarrow> environment" where
  "demo_env ins latest failing =
     \<lparr>input_value = (\<lambda>n. case map_of ins n of None \<Rightarrow> [] | Some v \<Rightarrow> v),
      other_text = (\<lambda>s k. s),
      latest_release = (\<lambda>t. latest),
      list_commits = (\<lambda>t s n. if ''listCommits'' \<in> set failing then Inl demo_exn
                               else Inr demo_commits),
      get_branch = (\<lambda>t b. if ''getBranch'' \<in> set failing then Inl demo_exn
                            else Inr ''c3c3c3c3c3c3''),
      create_release = (\<lambda>t tg nm bd d p.
                          if ''createRelease'' \<in> set failing then Inl demo_exn
                          else Inr (7, ''https://git.test/o/r/releases/7'',
                                    ''https://git.test/o/r/releases/7/assets'')),
      create_ref = (\<lambda>t r s. if ''createRef'' \<in> set failing then Inl demo_exn else Inr ()),
      create_pull = (\<lambda>t a b c d. if ''createPullRequest'' \<in> set failing then Inl demo_exn
                                  else Inr (3, ''https://git.test/o/r/pulls/3'')),
      add_labels = (\<lambda>t n ls. if ''addLabels'' \<in> set failing then Inl demo_exn else Inr ())\<rparr>"

text \<open>The four required inputs, and what \<open>parseInputs\<close> makes of them alone.\<close>

definition demo_inputs :: "(string \<times> string) list" where
  "demo_inputs =
     [(''token'', ''secret''), (''gitea-api-url'', ''https://git.test/api/v1''),
      (''gitea-owner'', ''o''), (''gitea-repo'', ''r'')]"

definition demo_parsed :: ActionInputs where
  "demo_parsed =
     \<lparr>token = ''secret'', repoUrl = [], releaseType = None, path = None,
      giteaApiUrl = ''https://git.test/api/v1'',
      configFile = Some DEFAULT_CONFIG_FILE, manifestFile = Some DEFAULT_MANIFEST_FILE,
      proxyServer = None, targetBranch = ''main'', skipGiteaRelease = None,
      skipGiteaPullRequest = None, skipLabeling = None, includeComponentInTag = None,
      changelogHost = [], versioningStrategy = None, releaseAs = None,
      giteaOwner = ''o'', giteaRepo = ''r''\<rparr>"

definition demo_release :: "string \<Rightarrow> Release" where
  "demo_release p =
     \<lparr>id_field = Some 7, tagName = ''v2.3.0'', name = ''Release 2.3.0'', body = ''## Changes'',
      draft = Some False, prerelease = None, path = p, version = Some ''2.3.0'',
      major = None, minor = None, patch = None, sha = None,
      url = Some ''https://git.test/o/r/releases/7'', uploadUrl = None\<rparr>"

definition scenario_inputs :: "(string \<times> string) list" where
  "scenario_inputs =
     [(''versioning-strategy'', ''always-bump-patch''), (''skip-gitea-pull-request'', ''true'')]
     @ demo_inputs"

definition scenario_env :: environment where
  "scenario_env = demo_env scenario_inputs (Inr ''v1.2.3'') []"

definition scenario_parsed :: ActionInputs where
  "scenario_parsed =
     demo_parsed\<lparr>versioningStrategy := Some ''always-bump-patch'',
                 skipGiteaPullRequest := Some True\<rparr>"

definition demo_changelog :: string where
  "demo_changelog =
     ''## Changes'' @ [CHR 0x0A, CHR 0x0A]
     @ ''* feat: third (c3c3c3c)'' @ [CHR 0x0A]
     @ ''* fix: second (b2b2b2b)'' @ [CHR 0x0A]
     @ ''* chore: first (a1a1a1a)'' @ [CHR 0x0A]"

definition demo_release_events :: "event list" where
  "demo_release_events =
     [Info ''Creating release'',
      Request ReposGetLatestRelease,
      Request (ReposGetBranch ''main''),
      Request ReposGetLatestRelease,
      Request (ReposListCommits (Some ''c3c3c3c3c3c3'') 100),
      Request (ReposCreateRelease ''v1.2.4'' ''Release 1.2.4'' demo_changelog False False),
      SetOutput ''releases_created'' (Bool True),
      SetOutput ''release_created'' (Bool True),
      SetOutput ''tag_name'' (Str ''v1.2.4''),
      SetOutput ''name'' (Str ''Release 1.2.4''),
      SetOutput ''body'' (Str demo_changelog),
      SetOutput ''draft'' (Bool False),
      SetOutput ''prerelease'' (Bool False),
      SetOutput ''path'' (Str ''.''),
      SetOutput ''version'' (Str ''1.2.4''),
      SetOutput ''id'' (Numv 7),
      SetOutput ''html_url'' (Str ''https://git.test/o/r/releases/7''),
      SetOutput ''upload_url'' (Str ''https://git.test/o/r/releases/7/assets''),
      SetOutput ''paths_released'' (JsonStrings [''.''])]"

definition demo_pull_request :: PullRequest where
  "demo_pull_request =
     \<lparr>number = 3, title = ''chore: release 1.2.4'',
      body = ''Release 1.2.4'' @ [CHR 0x0A, CHR 0x0A]
             @ ''This PR was generated by release-please for Gitea.'',
      headBranchName = ''release-please--main--1.2.4'',
      baseBranchName = ''main'',
      url = ''https://git.test/o/r/pulls/3'',
      labels = Some [''autorelease: pending'']\<rparr>"

definition demo_pr_events :: "bool \<Rightarrow> event list" where
  "demo_pr_events ref_fails =
     [Info ''Creating pull request'',
      Request ReposGetLatestRelease,
      Request (ReposGetBranch ''main''),
      Request (GitCreateRef ''refs/heads/release-please--main--1.2.4'' ''c3c3c3c3c3c3'')]
     @ (if ref_fails
        then [Error ''Failed to create ref: HttpError: Not Found'',
              Warning ''Branch release-please--main--1.2.4 may already exist'']
        else [])
     @ [Request (PullsCreate ''chore: release 1.2.4''
                   (''Release 1.2.4'' @ [CHR 0x0A, CHR 0x0A]
                    @ ''This PR was generated by release-please for Gitea.'')
                   ''release-please--main--1.2.4'' ''main''),
        Request (IssuesAddLabels 3 [''autorelease: pending'']),
        SetOutput ''prs_created'' (Bool True),
        SetOutput ''pr'' (PRObject demo_pull_request),
        SetOutput ''prs'' (JsonPRs [demo_pull_request])]"

definition demo_release_failed_events :: "event list" where
  "demo_release_failed_events =
     [Info ''Creating release'',
      Request ReposGetLatestRelease,
      Request (ReposGetBranch ''main''),
      Request ReposGetLatestRelease,
      Request (ReposListCommits (Some ''c3c3c3c3c3c3'') 100),
      Request (ReposCreateRelease ''v1.2.4'' ''Release 1.2.4'' demo_changelog False False),
      Error ''Failed to create release: HttpError: Not Found'']"

definition demo_pr_failed_events :: "event list" where
  "demo_pr_failed_events =
     [Info ''Creating pull request'',
      Request ReposGetLatestRelease,
      Request (ReposGetBranch ''main''),
      Request (GitCreateRef ''refs/heads/release-please--main--1.2.4'' ''c3c3c3c3c3c3''),
      Request (PullsCreate ''chore: release 1.2.4''
                 (''Release 1.2.4'' @ [CHR 0x0A, CHR 0x0A]
                  @ ''This PR was generated by release-please for Gitea.'')
                 ''release-please--main--1.2.4'' ''main''),
      Error ''Failed to create pull request: HttpError: Not Found'']"

definition pkg_inputs :: ActionInputs where
  "pkg_inputs =
     demo_parsed\<lparr>ActionInputs.path := Some ''pkgA'', includeComponentInTag := Some True,
                 releaseAs := Some ''2.3.0''\<rparr>"

section \<open>Properties of the version resolver\<close>

declare nat_text.simps [simp del]

lemma split_on_no_sep: "c \<notin> set a \<Longrightarrow> split_on c a = [a]"
  by (induction a) auto

lemma split_on_append: "c \<notin> set a \<Longrightarrow> split_on c (a @ c # r) = a # split_on c r"
  by (induction a) auto

lemma digit_not_ws: "is_digit c \<Longrightarrow> \<not> is_ws c"
  by (auto simp: is_digit_def is_ws_def)

lemma digit_not_special: "is_digit c \<Longrightarrow> c \<notin> set ''xXoObB-+I.v''"
  by (auto simp: is_digit_def)

lemma trim_digits:
  assumes "ds \<noteq> []" "list_all is_digit ds"
  shows "trim ds = ds"
proof -
  from assms have h: "\<not> is_ws (hd ds)" and l: "\<not> is_ws (last ds)"
    by (auto simp: list_all_iff digit_not_ws)
  from assms h have 1: "dropWhile is_ws ds = ds" by (cases ds) auto
  from assms l have 2: "dropWhile is_ws (rev ds) = rev ds"
    by (cases ds rule: rev_cases) auto
  show ?thesis by (simp add: trim_def 1 2)
qed

lemma prefixed_digits: "list_all is_digit ds \<Longrightarrow> prefixed_literal ds = None"
proof (cases ds)
  case Nil
  then show ?thesis by (simp add: prefixed_literal_def)
next
  case (Cons c0 r)
  assume a: "list_all is_digit ds"
  show ?thesis
  proof (cases r)
    case Nil
    with Cons show ?thesis by (simp add: prefixed_literal_def)
  next
    case (Cons c1 r')
    with a \<open>ds = c0 # r\<close> have "is_digit c1" by simp
    from digit_not_special[OF this] have "c1 \<notin> set ''xX''" "c1 \<notin> set ''oO''" "c1 \<notin> set ''bB''"
      by simp_all
    with Cons \<open>ds = c0 # r\<close> show ?thesis by (simp add: prefixed_literal_def)
  qed
qed

lemma decimal_digits:
  assumes "ds \<noteq> []" "list_all is_digit ds"
  shows "decimal_literal ds = Some (digits_value ds, 0)"
proof -
  from assms(2) have 1: "takeWhile is_digit ds = ds" and 2: "dropWhile is_digit ds = []"
    by (auto simp: list_all_iff)
  show ?thesis using assms(1) by (simp add: decimal_literal_def 1 2 exponent_part_def)
qed


lemma Number_digits:
  assumes "ds \<noteq> []" "list_all is_digit ds" "digits_value ds \<le> 2 ^ 53"
  shows "Number ds = Num (int (digits_value ds))"
proof -
  from assms obtain c r where ds: "ds = c # r" by (cases ds) auto
  with assms(2) have c: "is_digit c" by simp
  from digit_not_special[OF c] have cm: "c \<noteq> CHR ''-''" "c \<noteq> CHR ''+''" "c \<noteq> CHR ''I''"
    by simp_all
  from cm ds have ninf: "ds \<noteq> ''Infinity''" by simp
  have "int (digits_value ds) \<le> int (2 ^ 53)" using assms(3) by (simp only: of_nat_le_iff)
  then have le: "\<bar>int (digits_value ds)\<bar> \<le> 2 ^ 53" by simp
  have "trim ds = c # r" using trim_digits[OF assms(1,2)] ds by simp
  moreover have "prefixed_literal (c # r) = None" using prefixed_digits[OF assms(2)] ds by simp
  ultimately have "Number ds = unsigned_literal ds (c # r) False"
    using cm by (simp add: Number_def)
  also have "\<dots> = Num (int (digits_value ds))"
    using ninf le decimal_digits[OF assms(1,2)] by (simp add: unsigned_literal_def to_double_def ds)
  finally show ?thesis .
qed

lemma strip_v_digits: "a \<noteq> [] \<Longrightarrow> list_all is_digit a \<Longrightarrow> strip_v (a @ r) = a @ r"
  by (cases a) (use digit_not_special in \<open>auto simp: strip_v_def\<close>)

lemma strip_v_v: "strip_v (CHR ''v'' # r) = r"
  by (simp add: strip_v_def)

lemma digits_no_dot: "list_all is_digit a \<Longrightarrow> CHR ''.'' \<notin> set a"
  using digit_not_special by (fastforce simp: list_all_iff)

lemma parts_of_tag:
  assumes "a \<noteq> []" "list_all is_digit a" "list_all is_digit b" "list_all is_digit c"
      and "pre = [] \<or> pre = ''v''"
  shows "split_on CHR ''.'' (strip_v (pre @ a @ ''.'' @ b @ ''.'' @ c)) = [a, b, c]"
proof -
  have "strip_v (pre @ a @ ''.'' @ b @ ''.'' @ c) = a @ ''.'' @ b @ ''.'' @ c"
    using assms(5) strip_v_digits[OF assms(1,2)] strip_v_v by auto
  then show ?thesis
    using digits_no_dot[OF assms(2)] digits_no_dot[OF assms(3)] digits_no_dot[OF assms(4)]
    by (simp add: split_on_append split_on_no_sep)
qed



lemma int_text_nat: "int_text (int n) = nat_text n"
  by (simp add: int_text_def)

lemma bump_digits:
  assumes "a \<noteq> []" "list_all is_digit a" "digits_value a < 2 ^ 53"
      and "b \<noteq> []" "list_all is_digit b" "digits_value b < 2 ^ 53"
      and "c \<noteq> []" "list_all is_digit c" "digits_value c < 2 ^ 53"
      and "pre = [] \<or> pre = ''v''"
      and tg: "tg = pre @ a @ ''.'' @ b @ ''.'' @ c"
  shows "bump f tg s =
     (if s = Some ''always-bump-major'' then nat_text (digits_value a + 1) @ ''.0.0''
      else if s = Some ''always-bump-minor''
        then nat_text (digits_value a) @ ''.'' @ nat_text (digits_value b + 1) @ ''.0''
      else nat_text (digits_value a) @ ''.'' @ nat_text (digits_value b) @ ''.''
           @ nat_text (digits_value c + 1))"
proof -
  have na: "Number a = Num (int (digits_value a))" using assms(1-3) by (simp add: Number_digits)
  have nb: "Number b = Num (int (digits_value b))" using assms(4-6) by (simp add: Number_digits)
  have nc: "Number c = Num (int (digits_value c))" using assms(7-9) by (simp add: Number_digits)
  have ne: "int n \<noteq> 2 ^ 53" if "n < 2 ^ 53" for n :: nat
    using that by (metis of_nat_less_iff of_nat_numeral of_nat_power less_irrefl)
  have p1: "number_text f (plus1 (Num (int n))) = nat_text (n + 1)" if "n < 2 ^ 53" for n :: nat
    using ne[OF that] int_text_nat[of "n + 1"] by (simp add: add.commute)
  have p0: "number_text f (Num (int n)) = nat_text n" for n :: nat
    by (simp add: int_text_nat)
  have parts: "split_on CHR ''.'' (strip_v tg) = [a, b, c]"
    unfolding tg by (rule parts_of_tag[OF assms(1,2,5,8,10)])
  have vals: "map Number (split_on CHR ''.'' (strip_v tg)) =
      [Num (int (digits_value a)), Num (int (digits_value b)), Num (int (digits_value c))]"
    by (simp add: parts na nb nc)
  show ?thesis
    unfolding bump_def Let_def vals nth_opt_def
    using p1[OF assms(3)] p1[OF assms(6)] p1[OF assms(9)]
    by (simp add: p0 del: plus1.simps number_text.simps)
qed

lemma determineNextVersion_result:
  "fst (determineNextVersion env s t) =
     (case latest_release env t of Inl e \<Rightarrow> Inr ''1.0.0''
      | Inr tg \<Rightarrow> Inr (bump (other_text env) tg s))"
  by (simp add: determineNextVersion_def getLatestRelease_def await_def split: sum.splits)

text \<open>
  C1 (as amended). When the service answers the latest-release request with a tag made of
  an optional \<^verbatim>\<open>v\<close> and three components of decimal digits, each of value below
  \<open>2 ^ 53\<close>, \<open>determineNextVersion\<close> returns \<open>(major+1).0.0\<close> under
  \<^verbatim>\<open>always-bump-major\<close>, \<open>major.(minor+1).0\<close> under \<^verbatim>\<open>always-bump-minor\<close>, and
  \<open>major.minor.(patch+1)\<close> under \<^verbatim>\<open>always-bump-patch\<close>, under an absent strategy and
  under any other strategy string. When the request finds no release, it returns
  \<^verbatim>\<open>1.0.0\<close> under every strategy.
\<close>

theorem determineNextVersion_bumps:
  assumes "a \<noteq> []" "list_all is_digit a" "digits_value a < 2 ^ 53"
      and "b \<noteq> []" "list_all is_digit b" "digits_value b < 2 ^ 53"
      and "c \<noteq> []" "list_all is_digit c" "digits_value c < 2 ^ 53"
      and "pre = [] \<or> pre = ''v''"
  shows "(latest_release env t = Inr (pre @ a @ ''.'' @ b @ ''.'' @ c) \<longrightarrow>
            fst (determineNextVersion env s t) =
              Inr (if s = Some ''always-bump-major''
                     then nat_text (digits_value a + 1) @ ''.0.0''
                   else if s = Some ''always-bump-minor''
                     then nat_text (digits_value a) @ ''.'' @ nat_text (digits_value b + 1) @ ''.0''
                   else nat_text (digits_value a) @ ''.'' @ nat_text (digits_value b) @ ''.''
                        @ nat_text (digits_value c + 1)))
       \<and> ((\<exists>e. latest_release env t = Inl e) \<longrightarrow>
            fst (determineNextVersion env s t) = Inr ''1.0.0'')"
proof (intro conjI impI)
  assume l: "latest_release env t = Inr (pre @ a @ ''.'' @ b @ ''.'' @ c)"
  show "fst (determineNextVersion env s t) =
              Inr (if s = Some ''always-bump-major''
                     then nat_text (digits_value a + 1) @ ''.0.0''
                   else if s = Some ''always-bump-minor''
                     then nat_text (digits_value a) @ ''.'' @ nat_text (digits_value b + 1) @ ''.0''
                   else nat_text (digits_value a) @ ''.'' @ nat_text (digits_value b) @ ''.''
                        @ nat_text (digits_value c + 1))"
    unfolding determineNextVersion_result l
    using bump_digits[OF assms refl, of "other_text env" s] by simp
next
  assume "\<exists>e. latest_release env t = Inl e"
  then show "fst (determineNextVersion env s t) = Inr ''1.0.0''"
    unfolding determineNextVersion_result by auto
qed


lemmas number_defs = Number_def trim_def is_ws_def prefixed_literal_def unsigned_literal_def
  decimal_literal_def exponent_part_def signed_integer_def to_double_def is_hex_def
  digits_value_def radix_value_def digit_val_def is_digit_def
lemmas bump_defs = bump_def strip_v_def nth_opt_def int_text_def nat_text.simps

theorem determineNextVersion_bumps_witness:
  "fst (determineNextVersion (demo_env [] (Inr ''v1.2.3'') []) (Some ''always-bump-major'') []) = Inr ''2.0.0''
   \<and> fst (determineNextVersion (demo_env [] (Inr ''v1.2.3'') []) (Some ''always-bump-minor'') []) = Inr ''1.3.0''
   \<and> fst (determineNextVersion (demo_env [] (Inr ''v1.2.3'') []) (Some ''always-bump-patch'') []) = Inr ''1.2.4''
   \<and> fst (determineNextVersion (demo_env [] (Inr ''v1.2.3'') []) None []) = Inr ''1.2.4''
   \<and> fst (determineNextVersion (demo_env [] (Inr ''1.09.3'') []) (Some ''semver'') []) = Inr ''1.9.4''
   \<and> fst (determineNextVersion (demo_env [] (Inl demo_exn) []) (Some ''always-bump-minor'') []) = Inr ''1.0.0''"
  using determineNextVersion_bumps[of "''1''" "''2''" "''3''" "''v''" "demo_env [] (Inr ''v1.2.3'') []" "[]" "Some ''always-bump-major''"]
        determineNextVersion_bumps[of "''1''" "''2''" "''3''" "''v''" "demo_env [] (Inr ''v1.2.3'') []" "[]" "Some ''always-bump-minor''"]
        determineNextVersion_bumps[of "''1''" "''2''" "''3''" "''v''" "demo_env [] (Inr ''v1.2.3'') []" "[]" "Some ''always-bump-patch''"]
        determineNextVersion_bumps[of "''1''" "''2''" "''3''" "''v''" "demo_env [] (Inr ''v1.2.3'') []" "[]" "None"]
        determineNextVersion_bumps[of "''1''" "''09''" "''3''" "[]" "demo_env [] (Inr ''1.09.3'') []" "[]" "Some ''semver''"]
        determineNextVersion_bumps[of "''1''" "''2''" "''3''" "''v''" "demo_env [] (Inl demo_exn) []" "[]" "Some ''always-bump-minor''"]
  by (simp add: demo_env_def digits_value_def radix_value_def digit_val_def is_digit_def nat_text.simps)

text \<open>
  C1 as stated fails for a component of \<open>2 ^ 53\<close> or more: a Number is a double,
  \<open>2 ^ 53 + 1\<close> is not one, and the major bump of \<^verbatim>\<open>9007199254740992.0.0\<close> is
  \<^verbatim>\<open>9007199254740992.0.0\<close> again.
\<close>

theorem determineNextVersion_bumps_counterexample:
  "digits_value ''9007199254740992'' + 1 = 9007199254740993
   \<and> fst (determineNextVersion (demo_env [] (Inr ''9007199254740992.0.0'') [])
            (Some ''always-bump-major'') []) = Inr ''9007199254740992.0.0''"
  by (simp add: determineNextVersion_result demo_env_def number_defs bump_defs)













lemma trim_plain: "s \<noteq> [] \<Longrightarrow> \<not> is_ws (hd s) \<Longrightarrow> \<not> is_ws (last s) \<Longrightarrow> trim s = s"
proof -
  assume a: "s \<noteq> []" "\<not> is_ws (hd s)" "\<not> is_ws (last s)"
  then have 1: "dropWhile is_ws s = s" by (cases s) auto
  from a have 2: "dropWhile is_ws (rev s) = rev s" by (cases s rule: rev_cases) auto
  show ?thesis by (simp add: trim_def 1 2)
qed









section \<open>Properties of the changelog generator\<close>

lemma changelog_loop_Cons:
  "changelog_loop stop (c # cs) acc =
     (if truthy stop \<noteq> None \<and> Some (Commit.sha c) = stop then acc
      else changelog_loop stop cs (acc @ bullet c))"
  by (simp add: bullet_def)

lemma changelog_loop_all:
  "changelog_loop None cs acc = acc @ concat (map bullet cs)"
proof (induction cs arbitrary: acc)
  case Nil
  show ?case by simp
next
  case (Cons c cs)
  then show ?case by (simp add: changelog_loop_Cons del: changelog_loop.simps)
qed

lemma changelog_loop_unmatched:
  assumes "stop = Some [] \<or> (\<forall>c\<in>set cs. Some (Commit.sha c) \<noteq> stop)"
  shows "changelog_loop stop cs acc = acc @ concat (map bullet cs)"
  using assms
proof (induction cs arbitrary: acc)
  case Nil
  show ?case by simp
next
  case (Cons c cs)
  from Cons.prems have "stop = Some [] \<or> (\<forall>c\<in>set cs. Some (Commit.sha c) \<noteq> stop)" by auto
  from Cons.IH[OF this] Cons.prems show ?case
    by (auto simp: changelog_loop_Cons simp del: changelog_loop.simps)
qed

lemma changelog_loop_prefix:
  "\<exists>k\<le>length cs. changelog_loop stop cs acc = acc @ concat (map bullet (take k cs))"
proof (induction cs arbitrary: acc)
  case Nil
  show ?case by simp
next
  case (Cons c cs)
  show ?case
  proof (cases "truthy stop \<noteq> None \<and> Some (Commit.sha c) = stop")
    case True
    then have "changelog_loop stop (c # cs) acc = acc @ concat (map bullet (take 0 (c # cs)))"
      by (simp add: changelog_loop_Cons del: changelog_loop.simps)
    then show ?thesis by blast
  next
    case False
    from Cons.IH[of "acc @ bullet c"] obtain k where k: "k \<le> length cs"
      "changelog_loop stop cs (acc @ bullet c) = (acc @ bullet c) @ concat (map bullet (take k cs))"
      by blast
    have "changelog_loop stop (c # cs) acc = changelog_loop stop cs (acc @ bullet c)"
      by (simp only: changelog_loop_Cons False if_False)
    with k(2)
    have "changelog_loop stop (c # cs) acc = acc @ concat (map bullet (take (Suc k) (c # cs)))"
      by simp
    with k(1) show ?thesis by (intro exI[of _ "Suc k"]) simp
  qed
qed

lemma changelog_loop_stop:
  assumes "n < length cs" "stop = Some (Commit.sha (cs ! n))" "Commit.sha (cs ! n) \<noteq> []"
      and "\<forall>j<n. Commit.sha (cs ! j) \<noteq> Commit.sha (cs ! n)"
  shows "changelog_loop stop cs acc = acc @ concat (map bullet (take n cs))"
  using assms
proof (induction cs arbitrary: acc n)
  case Nil
  then show ?case by simp
next
  case (Cons c cs)
  show ?case
  proof (cases n)
    case 0
    with Cons.prems show ?thesis
      by (simp add: changelog_loop_Cons del: changelog_loop.simps)
  next
    case (Suc m)
    with Cons.prems have ne: "Commit.sha c \<noteq> Commit.sha (cs ! m)" by auto
    have "changelog_loop stop cs (acc @ bullet c) = (acc @ bullet c) @ concat (map bullet (take m cs))"
      using Cons.prems Suc by (intro Cons.IH) auto
    with ne Suc Cons.prems(2) show ?thesis
      by (simp add: changelog_loop_Cons del: changelog_loop.simps)
  qed
qed

text \<open>Every stop reference is null, empty, the identifier of no commit, or that of a first one.\<close>

lemma stop_cases:
  "stop = None \<or> stop = Some [] \<or> (\<forall>c\<in>set cs. Some (Commit.sha c) \<noteq> stop)
   \<or> (\<exists>n<length cs. stop = Some (Commit.sha (cs ! n)) \<and> Commit.sha (cs ! n) \<noteq> []
         \<and> (\<forall>j<n. Commit.sha (cs ! j) \<noteq> Commit.sha (cs ! n)))"
proof (cases "stop = None \<or> stop = Some [] \<or> (\<forall>c\<in>set cs. Some (Commit.sha c) \<noteq> stop)")
  case True
  then show ?thesis by blast
next
  case False
  then obtain s where s: "stop = Some s" "s \<noteq> []" by (cases stop) auto
  from False s obtain c where "c \<in> set cs" "Commit.sha c = s" by auto
  then obtain i where i: "i < length cs \<and> Commit.sha (cs ! i) = s"
    by (auto simp: in_set_conv_nth)
  define n where "n = (LEAST i. i < length cs \<and> Commit.sha (cs ! i) = s)"
  have n: "n < length cs \<and> Commit.sha (cs ! n) = s"
    unfolding n_def by (rule LeastI[of "\<lambda>i. i < length cs \<and> Commit.sha (cs ! i) = s", OF i])
  have m: "Commit.sha (cs ! j) \<noteq> s" if "j < n" for j
  proof
    assume "Commit.sha (cs ! j) = s"
    moreover have "j < length cs" using that n by simp
    ultimately have "n \<le> j" unfolding n_def by (intro Least_le) simp
    with that show False by simp
  qed
  from n m s show ?thesis by auto
qed

text \<open>
  C2. When the commit listing answers with the commits \<open>cs\<close> (newest first),
  \<open>generateChangelog\<close> returns, for every stop reference, the heading \<^verbatim>\<open>## Changes\<close>, an
  empty line, and one bullet line for each of the first \<open>k\<close> commits, for some \<open>k\<close>: the
  first line of the message, then the first 7 characters of the identifier in
  parentheses. Without a stop reference every commit of \<open>cs\<close> is emitted, and so it is
  with a stop reference that is the identifier of no commit of \<open>cs\<close> (the tag name that
  \<open>main\<close> passes) or that is empty (\<open>main\<close> never passes an empty one). With the stop
  reference equal to the identifier of the commit at position \<open>n\<close> (counted from 0, so
  the \<open>n+1\<close>-th commit, the first with this identifier), exactly the \<open>n\<close> commits before
  it are emitted. These cases cover every stop reference.
\<close>

theorem generateChangelog_lines:
  assumes "list_commits env t (Some toSha) 100 = Inr cs"
  shows "(\<exists>k\<le>length cs. fst (generateChangelog env stop toSha t) =
            Inr (''## Changes'' @ [CHR 0x0A, CHR 0x0A] @ concat (map bullet (take k cs))))
       \<and> (stop = None \<or> stop = Some [] \<or> (\<forall>c\<in>set cs. Some (Commit.sha c) \<noteq> stop) \<longrightarrow>
            fst (generateChangelog env stop toSha t) =
              Inr (''## Changes'' @ [CHR 0x0A, CHR 0x0A] @ concat (map bullet cs)))
       \<and> (n < length cs \<and> stop = Some (Commit.sha (cs ! n)) \<and> Commit.sha (cs ! n) \<noteq> []
            \<and> (\<forall>j<n. Commit.sha (cs ! j) \<noteq> Commit.sha (cs ! n)) \<longrightarrow>
            fst (generateChangelog env stop toSha t) =
              Inr (''## Changes'' @ [CHR 0x0A, CHR 0x0A] @ concat (map bullet (take n cs))))
       \<and> (stop = None \<or> stop = Some [] \<or> (\<forall>c\<in>set cs. Some (Commit.sha c) \<noteq> stop)
            \<or> (\<exists>m<length cs. stop = Some (Commit.sha (cs ! m)) \<and> Commit.sha (cs ! m) \<noteq> []
                  \<and> (\<forall>j<m. Commit.sha (cs ! j) \<noteq> Commit.sha (cs ! m))))
       \<and> truthy r \<noteq> Some []
       \<and> bullet c = ''* '' @ takeWhile (\<lambda>x. x \<noteq> CHR 0x0A) (message c) @ '' (''
                      @ take 7 (Commit.sha c) @ '')'' @ [CHR 0x0A]"
proof (intro conjI impI)
  have g: "fst (generateChangelog env stop toSha t) =
      Inr (changelog_loop stop cs (''## Changes'' @ [CHR 0x0A, CHR 0x0A]))"
    using assms by (simp add: generateChangelog_def listCommits_def await_def)
  show "\<exists>k\<le>length cs. fst (generateChangelog env stop toSha t) =
            Inr (''## Changes'' @ [CHR 0x0A, CHR 0x0A] @ concat (map bullet (take k cs)))"
    unfolding g using changelog_loop_prefix[of cs stop "''## Changes'' @ [CHR 0x0A, CHR 0x0A]"]
    by simp
  {
    assume "stop = None \<or> stop = Some [] \<or> (\<forall>c\<in>set cs. Some (Commit.sha c) \<noteq> stop)"
    then show "fst (generateChangelog env stop toSha t) =
              Inr (''## Changes'' @ [CHR 0x0A, CHR 0x0A] @ concat (map bullet cs))"
      unfolding g using changelog_loop_all[of cs] changelog_loop_unmatched[of stop cs] by auto
  }
  {
    assume "n < length cs \<and> stop = Some (Commit.sha (cs ! n)) \<and> Commit.sha (cs ! n) \<noteq> []
            \<and> (\<forall>j<n. Commit.sha (cs ! j) \<noteq> Commit.sha (cs ! n))"
    then show "fst (generateChangelog env stop toSha t) =
              Inr (''## Changes'' @ [CHR 0x0A, CHR 0x0A] @ concat (map bullet (take n cs)))"
      unfolding g using changelog_loop_stop[of n cs stop] by simp
  }
  show "stop = None \<or> stop = Some [] \<or> (\<forall>c\<in>set cs. Some (Commit.sha c) \<noteq> stop)
            \<or> (\<exists>m<length cs. stop = Some (Commit.sha (cs ! m)) \<and> Commit.sha (cs ! m) \<noteq> []
                  \<and> (\<forall>j<m. Commit.sha (cs ! j) \<noteq> Commit.sha (cs ! m)))"
    by (rule stop_cases)
  show "truthy r \<noteq> Some []" by (cases r) auto
  show "bullet c = ''* '' @ takeWhile (\<lambda>x. x \<noteq> CHR 0x0A) (message c) @ '' (''
                      @ take 7 (Commit.sha c) @ '')'' @ [CHR 0x0A]"
    by (simp add: bullet_def first_line_def)
qed

theorem generateChangelog_lines_witness:
  "fst (generateChangelog (demo_env [] (Inl demo_exn) []) None ''c3c3c3c3c3c3'' []) =
     Inr (''## Changes'' @ [CHR 0x0A, CHR 0x0A]
          @ ''* feat: third (c3c3c3c)'' @ [CHR 0x0A]
          @ ''* fix: second (b2b2b2b)'' @ [CHR 0x0A]
          @ ''* chore: first (a1a1a1a)'' @ [CHR 0x0A])
   \<and> fst (generateChangelog (demo_env [] (Inl demo_exn) []) (Some ''a1a1a1a1a1a1'') ''c3c3c3c3c3c3'' []) =
     Inr (''## Changes'' @ [CHR 0x0A, CHR 0x0A]
          @ ''* feat: third (c3c3c3c)'' @ [CHR 0x0A]
          @ ''* fix: second (b2b2b2b)'' @ [CHR 0x0A])
   \<and> fst (generateChangelog (demo_env [] (Inl demo_exn) []) (Some ''v1.2.3'') ''c3c3c3c3c3c3'' []) =
     Inr (''## Changes'' @ [CHR 0x0A, CHR 0x0A]
          @ ''* feat: third (c3c3c3c)'' @ [CHR 0x0A]
          @ ''* fix: second (b2b2b2b)'' @ [CHR 0x0A]
          @ ''* chore: first (a1a1a1a)'' @ [CHR 0x0A])
   \<and> fst (generateChangelog (demo_env [] (Inl demo_exn) []) (Some []) ''c3c3c3c3c3c3'' []) =
     Inr (''## Changes'' @ [CHR 0x0A, CHR 0x0A]
          @ ''* feat: third (c3c3c3c)'' @ [CHR 0x0A]
          @ ''* fix: second (b2b2b2b)'' @ [CHR 0x0A]
          @ ''* chore: first (a1a1a1a)'' @ [CHR 0x0A])"
proof -
  let ?env = "demo_env [] (Inl demo_exn) []"
  have d: "\<forall>j<2. Commit.sha (demo_commits ! j) \<noteq> Commit.sha (demo_commits ! 2)"
    by (auto simp: demo_commits_def numeral_2_eq_2 less_Suc_eq)
  have u: "\<forall>c\<in>set demo_commits. Some (Commit.sha c) \<noteq> Some ''v1.2.3''"
    by (simp add: demo_commits_def)
  have l: "list_commits ?env [] (Some ''c3c3c3c3c3c3'') 100 = Inr demo_commits"
    by (simp add: demo_env_def)
  note t = generateChangelog_lines[OF l, THEN conjunct2]
  have 1: "fst (generateChangelog ?env None ''c3c3c3c3c3c3'' []) =
      Inr (''## Changes'' @ [CHR 0x0A, CHR 0x0A] @ concat (map bullet demo_commits))"
    using t[of None, THEN conjunct1] by simp
  have 2: "fst (generateChangelog ?env (Some ''a1a1a1a1a1a1'') ''c3c3c3c3c3c3'' []) =
      Inr (''## Changes'' @ [CHR 0x0A, CHR 0x0A] @ concat (map bullet (take 2 demo_commits)))"
    using t[of "Some ''a1a1a1a1a1a1''" 2, THEN conjunct2, THEN conjunct1] d
    by (simp add: demo_commits_def)
  have 3: "fst (generateChangelog ?env (Some ''v1.2.3'') ''c3c3c3c3c3c3'' []) =
      Inr (''## Changes'' @ [CHR 0x0A, CHR 0x0A] @ concat (map bullet demo_commits))"
    using t[of "Some ''v1.2.3''", THEN conjunct1] u by simp
  have 4: "fst (generateChangelog ?env (Some []) ''c3c3c3c3c3c3'' []) =
      Inr (''## Changes'' @ [CHR 0x0A, CHR 0x0A] @ concat (map bullet demo_commits))"
    using t[of "Some []", THEN conjunct1] by simp
  show ?thesis
    unfolding 1 2 3 4 by (simp add: demo_commits_def bullet_def first_line_def)
qed

section \<open>Properties of the output formatter\<close>

lemma setPathOutput_prefix: "setPathOutput p key v t = t @ [SetOutput (key_prefix p @ key) v]"
  by (simp add: setPathOutput_def key_prefix_def)

lemma output_entries_Cons:
  "output_entries p ((rawKey, v) # es) t =
     output_entries p es (t @ emit (key_prefix p) (output_key rawKey) v)"
  by (cases v) (simp_all add: setPathOutput_prefix)

lemma output_release_step:
  assumes "Release.path r \<noteq> []"
  shows "output_entries (Release.path r) (entries r)
           (setPathOutput (Release.path r) ''release_created'' (Bool True) t) =
         t @ release_outputs r"
  by (simp add: release_outputs_def entries_def output_entries_Cons
        output_key_def setPathOutput_prefix Let_def del: output_entries.simps(2) emit.simps)

lemma output_release_loop_eq:
  "\<forall>r\<in>set rs. Release.path r \<noteq> [] \<Longrightarrow>
   output_release_loop rs ps t =
     (ps @ map Release.path rs, t @ concat (map release_outputs rs))"
proof (induction rs arbitrary: ps t)
  case Nil
  show ?case by simp
next
  case (Cons r rs)
  then have p: "Release.path r \<noteq> []" and rest: "\<forall>r\<in>set rs. Release.path r \<noteq> []"
    by simp_all
  show ?case
    using p by (simp add: Let_def output_release_step[OF p] Cons.IH[OF rest])
qed

lemma outputReleases_eq:
  assumes "\<forall>r\<in>set (defined rs). Release.path r \<noteq> []"
  shows "outputReleases rs t =
     t @ [SetOutput ''releases_created'' (Bool (defined rs \<noteq> []))]
       @ concat (map release_outputs (defined rs))
       @ [SetOutput ''paths_released'' (JsonStrings (map Release.path (defined rs)))]"
  by (simp add: outputReleases_def Let_def output_release_loop_eq[OF assms])

text \<open>
  C8. For every list of releases given to \<open>outputReleases\<close> (the paths non-empty, as
  \<open>main\<close> builds them), the outputs are \<^verbatim>\<open>releases_created\<close>, then for each release the
  outputs \<open>release_outputs\<close>, then \<^verbatim>\<open>paths_released\<close>. In \<open>release_outputs\<close> the keys
  of a release at the root path \<^verbatim>\<open>.\<close> are unprefixed and those of any other path are
  prefixed with the path and two dashes; \<^verbatim>\<open>tagName\<close>, \<^verbatim>\<open>uploadUrl\<close> and \<^verbatim>\<open>url\<close>
  appear as \<^verbatim>\<open>tag_name\<close>, \<^verbatim>\<open>upload_url\<close> and \<^verbatim>\<open>html_url\<close>; a field without a value
  is left out.
\<close>

theorem outputReleases_keys:
  assumes "\<forall>r\<in>set (defined rs). Release.path r \<noteq> []"
  shows "outputReleases rs t =
     t @ [SetOutput ''releases_created'' (Bool (defined rs \<noteq> []))]
       @ concat (map release_outputs (defined rs))
       @ [SetOutput ''paths_released'' (JsonStrings (map Release.path (defined rs)))]"
  using assms by (rule outputReleases_eq)

theorem outputReleases_keys_witness:
  "outputReleases [Some (demo_release ''.'')] [] =
     [SetOutput ''releases_created'' (Bool True),
      SetOutput ''release_created'' (Bool True),
      SetOutput ''tag_name'' (Str ''v2.3.0''),
      SetOutput ''name'' (Str ''Release 2.3.0''),
      SetOutput ''body'' (Str ''## Changes''),
      SetOutput ''draft'' (Bool False),
      SetOutput ''path'' (Str ''.''),
      SetOutput ''version'' (Str ''2.3.0''),
      SetOutput ''id'' (Numv 7),
      SetOutput ''html_url'' (Str ''https://git.test/o/r/releases/7''),
      SetOutput ''paths_released'' (JsonStrings [''.''])]
   \<and> outputReleases [None, Some (demo_release ''pkgA'')] [] =
     [SetOutput ''releases_created'' (Bool True),
      SetOutput ''pkgA--release_created'' (Bool True),
      SetOutput ''pkgA--tag_name'' (Str ''v2.3.0''),
      SetOutput ''pkgA--name'' (Str ''Release 2.3.0''),
      SetOutput ''pkgA--body'' (Str ''## Changes''),
      SetOutput ''pkgA--draft'' (Bool False),
      SetOutput ''pkgA--path'' (Str ''pkgA''),
      SetOutput ''pkgA--version'' (Str ''2.3.0''),
      SetOutput ''pkgA--id'' (Numv 7),
      SetOutput ''pkgA--html_url'' (Str ''https://git.test/o/r/releases/7''),
      SetOutput ''paths_released'' (JsonStrings [''pkgA''])]"
  using outputReleases_keys[of "[Some (demo_release ''.'')]" "[]"]
        outputReleases_keys[of "[None, Some (demo_release ''pkgA'')]" "[]"]
  by (simp add: demo_release_def key_prefix_def defined_def release_outputs_def)

section \<open>Explicit form of the orchestrator\<close>

lemma infos_append [simp]: "infos (a @ b) = infos a @ infos b"
  by (induction a) (simp_all split: event.splits)
lemma warnings_append [simp]: "warnings (a @ b) = warnings a @ warnings b"
  by (induction a) (simp_all split: event.splits)
lemma errors_append [simp]: "errors (a @ b) = errors a @ errors b"
  by (induction a) (simp_all split: event.splits)
lemma requests_append [simp]: "requests (a @ b) = requests a @ requests b"
  by (induction a) (simp_all split: event.splits)
lemma outputs_append [simp]: "outputs (a @ b) = outputs a @ outputs b"
  by (induction a) (simp_all split: event.splits)


lemma truthy_path_nonempty [simp]: "(case truthy x of None \<Rightarrow> ''.'' | Some p \<Rightarrow> p) \<noteq> []"
  by (cases x) auto

lemma only_outputs_emit: "only_outputs (emit pfx k v)"
  by (cases v) (simp_all add: only_outputs_def)

lemma only_outputs_release: "only_outputs (release_outputs r)"
  using only_outputs_emit by (simp add: release_outputs_def Let_def only_outputs_def)

lemma await_next_version:
  "await (next_version env inputs t) k = k (resolved env inputs t) (t @ resolver_requests inputs)"
  by (simp add: next_version_def determineNextVersion_def getLatestRelease_def await_def
        resolved_def resolver_requests_def split: option.splits sum.splits)

lemma await_getBranch:
  "await (getBranch env b t) k =
     (case get_branch env t b of
        Inl e \<Rightarrow> (Inl e, t @ [Request (ReposGetBranch b),
                                Error (''Failed to get branch: '' @ error_text e)])
      | Inr h \<Rightarrow> k h (t @ [Request (ReposGetBranch b)]))"
  by (simp add: getBranch_def await_def split: sum.splits)

lemma await_getLatestRelease:
  "await (getLatestRelease env t) k =
     k (case latest_release env t of Inl e \<Rightarrow> None | Inr tg \<Rightarrow> Some tg)
       (t @ [Request ReposGetLatestRelease])"
  by (simp add: getLatestRelease_def await_def split: sum.splits)

lemma await_generateChangelog:
  "await (generateChangelog env fromTag toSha t) k =
     (case list_commits env t (Some toSha) 100 of
        Inl e \<Rightarrow> (Inl e, t @ [Request (ReposListCommits (Some toSha) 100),
                                Error (''Failed to list commits: '' @ error_text e)])
      | Inr cs \<Rightarrow> k (changelog_loop fromTag cs (''## Changes'' @ [CHR 0x0A, CHR 0x0A]))
                   (t @ [Request (ReposListCommits (Some toSha) 100)]))"
  by (simp add: generateChangelog_def listCommits_def await_def split: sum.splits)

lemma await_createRelease:
  "await (createRelease env r t) k =
     (let dr = (case draft r of None \<Rightarrow> False | Some b \<Rightarrow> b);
          pre = (case prerelease r of None \<Rightarrow> False | Some b \<Rightarrow> b);
          q = Request (ReposCreateRelease (tagName r) (name r) (Release.body r) dr pre)
      in case create_release env t (tagName r) (name r) (Release.body r) dr pre of
           Inl e \<Rightarrow> (Inl e, t @ [q, Error (''Failed to create release: '' @ error_text e)])
         | Inr x \<Rightarrow>
             k (r\<lparr>id_field := Some (fst x), Release.url := Some (fst (snd x)),
                   uploadUrl := Some (snd (snd x))\<rparr>) (t @ [q]))"
  by (simp add: createRelease_def await_def Let_def split: sum.splits prod.splits)

lemma release_branch_eq:
  "release_branch env inputs t0 =
     (let v = resolved env inputs (t0 @ [Info ''Creating release'']);
          t1 = t0 @ Info ''Creating release'' # resolver_requests inputs
      in case get_branch env t1 (targetBranch inputs) of
           Inl e \<Rightarrow> (Inl e, t1 @ [Request (ReposGetBranch (targetBranch inputs)),
                                   Error (''Failed to get branch: '' @ error_text e)])
         | Inr b \<Rightarrow>
             (let t2 = t1 @ [Request (ReposGetBranch (targetBranch inputs))];
                  lr = (case latest_release env t2 of Inl e \<Rightarrow> None | Inr tg \<Rightarrow> Some tg);
                  t3 = t2 @ [Request ReposGetLatestRelease]
              in case list_commits env t3 (Some b) 100 of
                   Inl e \<Rightarrow> (Inl e, t3 @ [Request (ReposListCommits (Some b) 100),
                                           Error (''Failed to list commits: '' @ error_text e)])
                 | Inr cs \<Rightarrow>
                     (let cl = changelog_loop (truthy lr) cs (''## Changes'' @ [CHR 0x0A, CHR 0x0A]);
                          t4 = t3 @ [Request (ReposListCommits (Some b) 100)];
                          q = Request (ReposCreateRelease (release_tag inputs v)
                                         (''Release '' @ v) cl False False)
                      in case create_release env t4 (release_tag inputs v) (''Release '' @ v)
                                cl False False of
                           Inl e \<Rightarrow> (Inl e, t4 @ [q, Error (''Failed to create release: ''
                                                              @ error_text e)])
                         | Inr x \<Rightarrow>
                             (Inr (), outputReleases
                                [Some \<lparr>id_field = Some (fst x), tagName = release_tag inputs v,
                                       name = ''Release '' @ v, body = cl, draft = Some False,
                                       prerelease = Some False,
                                       path = (case truthy (ActionInputs.path inputs) of
                                                 None \<Rightarrow> ''.'' | Some p \<Rightarrow> p),
                                       version = Some v, major = None, minor = None,
                                       patch = None, sha = None, url = Some (fst (snd x)),
                                       uploadUrl = Some (snd (snd x))\<rparr>] (t4 @ [q])))))"
  unfolding release_branch_def await_next_version await_getBranch await_getLatestRelease
    await_generateChangelog await_createRelease release_tag_def
  by (simp add: Let_def split: sum.splits)

lemma await_createPullRequest:
  "await (createPullRequest env pr t) k =
     (case create_pull env t (title pr) (PullRequest.body pr)
             (headBranchName pr) (baseBranchName pr) of
        Inl e \<Rightarrow> (Inl e, t @ [Request (pulls_create pr),
                                Error (''Failed to create pull request: '' @ error_text e)])
      | Inr x \<Rightarrow>
          (if labels pr = None \<or> labels pr = Some []
           then k (pr\<lparr>number := fst x, PullRequest.url := snd x\<rparr>) (t @ [Request (pulls_create pr)])
           else (case add_labels env (t @ [Request (pulls_create pr)]) (fst x) (the (labels pr)) of
                   Inl e \<Rightarrow> (Inl e, t @ [Request (pulls_create pr),
                                           Request (IssuesAddLabels (fst x) (the (labels pr))),
                                           Error (''Failed to create pull request: ''
                                                  @ error_text e)])
                 | Inr u \<Rightarrow> k (pr\<lparr>number := fst x, PullRequest.url := snd x\<rparr>)
                               (t @ [Request (pulls_create pr),
                                     Request (IssuesAddLabels (fst x) (the (labels pr)))]))))"
  by (cases "labels pr")
     (auto simp: createPullRequest_def await_def Let_def pulls_create_def
        split: sum.splits prod.splits)

lemma createRef_try:
  "(case createRef env nm b t of (Inr u, t') \<Rightarrow> t'
    | (Inl e, t') \<Rightarrow> t' @ [Warning (''Branch '' @ nm @ '' may already exist'')]) =
   t @ ref_events env t nm b"
  by (simp add: createRef_def ref_events_def Let_def split: sum.splits)

lemma pull_request_fields [simp]:
  "title (pull_request inputs v) = ''chore: release '' @ v"
  "headBranchName (pull_request inputs v) = release_branch_name inputs v"
  "baseBranchName (pull_request inputs v) = targetBranch inputs"
  "labels (pull_request inputs v) = Some (pr_labels inputs)"
  by (simp_all add: pull_request_def)

lemma outputPRs_single:
  "outputPRs [Some pr] t =
     t @ [SetOutput ''prs_created'' (Bool True), SetOutput ''pr'' (PRObject pr),
          SetOutput ''prs'' (JsonPRs [pr])]"
  by (simp add: outputPRs_def defined_def)

lemma pr_branch_eq:
  "pr_branch env inputs t0 =
     (let v = resolved env inputs (t0 @ [Info ''Creating pull request'']);
          t1 = t0 @ Info ''Creating pull request'' # resolver_requests inputs
      in case get_branch env t1 (targetBranch inputs) of
           Inl e \<Rightarrow> (Inl e, t1 @ [Request (ReposGetBranch (targetBranch inputs)),
                                   Error (''Failed to get branch: '' @ error_text e)])
         | Inr b \<Rightarrow>
             (let t2 = t1 @ [Request (ReposGetBranch (targetBranch inputs))];
                  pr = pull_request inputs v;
                  t3 = t2 @ ref_events env t2 (release_branch_name inputs v) b @ [Request (pulls_create pr)]
              in case create_pull env (t2 @ ref_events env t2 (release_branch_name inputs v) b)
                        (title pr) (PullRequest.body pr) (headBranchName pr) (baseBranchName pr) of
                   Inl e \<Rightarrow> (Inl e, t3 @ [Error (''Failed to create pull request: ''
                                                  @ error_text e)])
                 | Inr x \<Rightarrow>
                     if pr_labels inputs = []
                     then (Inr (), outputPRs
                             [Some (pr\<lparr>number := fst x, PullRequest.url := snd x\<rparr>)] t3)
                     else (case add_labels env t3 (fst x) (pr_labels inputs) of
                             Inl e \<Rightarrow>
                               (Inl e, t3 @ [Request (IssuesAddLabels (fst x) (pr_labels inputs)),
                                             Error (''Failed to create pull request: ''
                                                    @ error_text e)])
                           | Inr u \<Rightarrow>
                               (Inr (), outputPRs
                                  [Some (pr\<lparr>number := fst x, PullRequest.url := snd x\<rparr>)]
                                  (t3 @ [Request (IssuesAddLabels (fst x) (pr_labels inputs))])))))"
  unfolding pr_branch_def await_next_version await_getBranch createRef_try Let_def
  unfolding release_branch_name_def[symmetric]
  unfolding pull_request_def[unfolded pr_labels_def, symmetric]
  unfolding await_createPullRequest pull_request_fields
  by (simp split: sum.splits)

lemma main_eq:
  "main env =
     (case parseInputs env of
        Inl e \<Rightarrow> [SetFailed (''release-please failed: '' @ error_text e)]
      | Inr inputs \<Rightarrow>
          (case fst (release_phase env inputs) of
             Inl e \<Rightarrow> snd (release_phase env inputs)
                      @ [SetFailed (''release-please failed: '' @ error_text e)]
           | Inr u \<Rightarrow>
               (case fst (pr_phase env inputs) of
                  Inl e \<Rightarrow> snd (pr_phase env inputs)
                           @ [SetFailed (''release-please failed: '' @ error_text e)]
                | Inr u \<Rightarrow> snd (pr_phase env inputs)
                           @ [Info ''Release-please process completed successfully''])))"
proof (cases "parseInputs env")
  case (Inl e)
  then show ?thesis by (simp add: main_def)
next
  case (Inr inputs)
  obtain r1 t1 where r1: "release_phase env inputs = (r1, t1)" by (cases "release_phase env inputs")
  obtain r2 t2 where r2: "pr_phase env inputs = (r2, t2)" by (cases "pr_phase env inputs")
  show ?thesis
    using r1 r2 unfolding main_def Inr
    by (auto simp: release_phase_def pr_phase_def start_trace_def await_def
          split: sum.splits if_splits)
qed

lemma infos_resolver [simp]: "infos (resolver_requests inputs) = []"
  by (simp add: resolver_requests_def split: option.splits)

lemma outputReleases_single:
  "Release.path r \<noteq> [] \<Longrightarrow>
   outputReleases [Some r] t =
     t @ SetOutput ''releases_created'' (Bool True) # release_outputs r
       @ [SetOutput ''paths_released'' (JsonStrings [Release.path r])]"
  by (simp add: outputReleases_eq defined_def)

lemma release_outputs_infos [simp]: "infos (release_outputs r) = []"
  using only_outputs_release by (simp add: only_outputs_def)

lemma resolver_projections [simp]:
  "infos (resolver_requests inputs) = []"
  "warnings (resolver_requests inputs) = []"
  "errors (resolver_requests inputs) = []"
  "outputs (resolver_requests inputs) = []"
  "requests (resolver_requests inputs) =
     (case truthy (releaseAs inputs) of Some v \<Rightarrow> [] | None \<Rightarrow> [ReposGetLatestRelease])"
  by (simp_all add: resolver_requests_def split: option.splits)

lemma release_outputs_projections [simp]:
  "infos (release_outputs r) = []"
  "warnings (release_outputs r) = []"
  "errors (release_outputs r) = []"
  "requests (release_outputs r) = []"
  using only_outputs_release[of r] by (simp_all add: only_outputs_def)

lemma ref_events_projections [simp]:
  "infos (ref_events env t nm b) = []"
  "outputs (ref_events env t nm b) = []"
  "requests (ref_events env t nm b) = [GitCreateRef (''refs/heads/'' @ nm) b]"
  by (simp_all add: ref_events_def split: sum.splits)

lemma ref_events_logs:
  "warnings (ref_events env t nm b) =
     (case create_ref env t (''refs/heads/'' @ nm) b of
        Inr u \<Rightarrow> [] | Inl e \<Rightarrow> [''Branch '' @ nm @ '' may already exist''])"
  "errors (ref_events env t nm b) =
     (case create_ref env t (''refs/heads/'' @ nm) b of
        Inr u \<Rightarrow> [] | Inl e \<Rightarrow> [''Failed to create ref: '' @ error_text e])"
  by (simp_all add: ref_events_def split: sum.splits)

lemma ref_events_errors:
  "m \<in> set (errors (ref_events env t nm b)) \<Longrightarrow> take 20 m = ''Failed to create ref''"
  by (auto simp: ref_events_logs split: sum.splits)

lemma ref_events_warnings:
  "warnings (ref_events env t nm b) \<noteq> [] \<Longrightarrow>
   \<exists>m\<in>set (errors (ref_events env t nm b)). take 20 m = ''Failed to create ref''"
  by (auto simp: ref_events_logs split: sum.splits)

lemmas release_simps = release_branch_eq Let_def outputReleases_single
lemmas pr_simps = pr_branch_eq Let_def outputPRs_single

lemma release_branch_infos:
  "infos (snd (release_branch env inputs t0)) = infos t0 @ [''Creating release'']"
  by (simp add: release_simps split: sum.splits)

lemma release_branch_warnings:
  "warnings (snd (release_branch env inputs t0)) = warnings t0"
  by (simp add: release_simps split: sum.splits)

lemma release_branch_errors:
  "fst (release_branch env inputs t0) = Inr u \<longrightarrow>
   errors (snd (release_branch env inputs t0)) = errors t0"
  by (simp add: release_simps split: sum.splits)

lemma release_branch_prefix:
  "take (length t0) (snd (release_branch env inputs t0)) = t0"
  by (simp add: release_simps split: sum.splits)

lemma release_branch_requests:
  "q \<in> set (requests (events_of t0 (release_branch env inputs t0))) \<longrightarrow>
   \<not> pr_request q \<and>
   (\<forall>tg nm bd d p. q = ReposCreateRelease tg nm bd d p \<longrightarrow>
      tg = release_tag inputs (resolved env inputs (t0 @ [Info ''Creating release'']))
      \<and> nm = ''Release '' @ resolved env inputs (t0 @ [Info ''Creating release'']))"
  by (auto simp: events_of_def release_simps split: sum.splits option.splits)

lemma pr_branch_infos:
  "infos (snd (pr_branch env inputs t0)) = infos t0 @ [''Creating pull request'']"
  by (simp add: pr_simps split: sum.splits)

lemma pr_branch_prefix:
  "take (length t0) (snd (pr_branch env inputs t0)) = t0"
  by (simp add: pr_simps split: sum.splits)

lemma pr_branch_requests:
  "q \<in> set (requests (events_of t0 (pr_branch env inputs t0))) \<longrightarrow>
   (\<forall>tg nm bd d p. q \<noteq> ReposCreateRelease tg nm bd d p) \<and>
   (\<forall>ti bd h bs. q = PullsCreate ti bd h bs \<longrightarrow>
      ti = ''chore: release '' @ resolved env inputs (t0 @ [Info ''Creating pull request''])
      \<and> h = release_branch_name inputs (resolved env inputs (t0 @ [Info ''Creating pull request'']))
      \<and> bs = targetBranch inputs)"
  by (auto simp: events_of_def pr_simps pulls_create_def split: sum.splits option.splits)


lemma parseInputs_flags:
  assumes "parseInputs env = Inr inputs"
  shows "getOptionalBooleanInput env ''skip-gitea-release'' = Inr (skipGiteaRelease inputs)"
    and "getOptionalBooleanInput env ''skip-gitea-pull-request'' = Inr (skipGiteaPullRequest inputs)"
  using assms
  by (auto simp: parseInputs_def or_throw_def split: sum.splits)

lemma getOptionalBooleanInput_value:
  assumes "getOptionalBooleanInput env nm = Inr b"
  shows "(getInput env nm = [] \<longrightarrow> b = None)
       \<and> (b = Some True \<longleftrightarrow> getInput env nm \<in> set [''true'', ''True'', ''TRUE''])"
  using assms
  by (auto simp: getOptionalBooleanInput_def getBooleanInput_def Let_def split: if_splits)

lemma main_infos:
  assumes "parseInputs env = Inr inputs"
  shows "infos (main env) =
     ''Starting Gitea release-please process''
     # (if skipGiteaRelease inputs = Some True then [] else [''Creating release''])
     @ (if skipGiteaPullRequest inputs \<noteq> Some True \<and> (\<exists>u. fst (release_phase env inputs) = Inr u)
        then [''Creating pull request''] else [])
     @ (if (\<exists>u. fst (release_phase env inputs) = Inr u) \<and> (\<exists>u. fst (pr_phase env inputs) = Inr u)
        then [''Release-please process completed successfully''] else [])"
proof -
  have r: "infos (snd (release_phase env inputs)) =
      ''Starting Gitea release-please process''
      # (if skipGiteaRelease inputs = Some True then [] else [''Creating release''])"
    by (simp add: release_phase_def start_trace_def release_branch_infos)
  have p: "infos (snd (pr_phase env inputs)) =
      infos (snd (release_phase env inputs))
      @ (if skipGiteaPullRequest inputs \<noteq> Some True then [''Creating pull request''] else [])"
    by (simp add: pr_phase_def pr_branch_infos)
  show ?thesis
    unfolding main_eq assms
    by (cases "fst (release_phase env inputs)"; cases "fst (pr_phase env inputs)")
       (simp_all add: r p)
qed

section \<open>Properties of the orchestrator\<close>

text \<open>
  C10 (as amended). In every run whose inputs parse: a skip input that is absent or empty
  (after trimming) parses to \<^verbatim>\<open>undefined\<close>; a skip flag is \<^verbatim>\<open>true\<close> only for the input
  values \<^verbatim>\<open>true\<close>, \<^verbatim>\<open>True\<close>, \<^verbatim>\<open>TRUE\<close>; the release branch is entered (its log line
  \<^verbatim>\<open>Creating release\<close> appears) exactly when its flag is not \<^verbatim>\<open>true\<close>, and the
  pull-request branch is entered exactly when its flag is not \<^verbatim>\<open>true\<close> and the release
  phase did not throw. So with both skip inputs absent or empty the release branch is
  entered, and the pull-request branch is entered exactly when the release branch has
  returned: a failure in the release branch ends the run before the pull-request branch.
\<close>

theorem skip_flags_default:
  assumes "parseInputs env = Inr inputs"
  shows "(getInput env ''skip-gitea-release'' = [] \<longrightarrow> skipGiteaRelease inputs = None)
       \<and> (getInput env ''skip-gitea-pull-request'' = [] \<longrightarrow> skipGiteaPullRequest inputs = None)
       \<and> (skipGiteaRelease inputs = Some True \<longleftrightarrow>
            getInput env ''skip-gitea-release'' \<in> set [''true'', ''True'', ''TRUE''])
       \<and> (skipGiteaPullRequest inputs = Some True \<longleftrightarrow>
            getInput env ''skip-gitea-pull-request'' \<in> set [''true'', ''True'', ''TRUE''])
       \<and> (''Creating release'' \<in> set (infos (main env)) \<longleftrightarrow> skipGiteaRelease inputs \<noteq> Some True)
       \<and> (''Creating pull request'' \<in> set (infos (main env)) \<longleftrightarrow>
            skipGiteaPullRequest inputs \<noteq> Some True
            \<and> (\<exists>u. fst (release_phase env inputs) = Inr u))
       \<and> (getInput env ''skip-gitea-release'' = []
            \<and> getInput env ''skip-gitea-pull-request'' = [] \<longrightarrow>
            ''Creating release'' \<in> set (infos (main env))
            \<and> (''Creating pull request'' \<in> set (infos (main env)) \<longleftrightarrow>
                 fst (release_branch env inputs start_trace) = Inr ()))"
proof -
  note f = parseInputs_flags[OF assms]
  note v1 = getOptionalBooleanInput_value[OF f(1)]
  note v2 = getOptionalBooleanInput_value[OF f(2)]
  show ?thesis
    using v1 v2 by (auto simp: main_infos[OF assms] release_phase_def pr_phase_def)
qed

text \<open>Evaluation on the example environments.\<close>

lemma map_of_demo_inputs:
  "map_of demo_inputs n =
     (if n = ''token'' then Some ''secret''
      else if n = ''gitea-api-url'' then Some ''https://git.test/api/v1''
      else if n = ''gitea-owner'' then Some ''o''
      else if n = ''gitea-repo'' then Some ''r'' else None)"
  by (simp add: demo_inputs_def)

lemma input_demo [simp]: "input_value (demo_env ins l f) n = (case map_of ins n of None \<Rightarrow> [] | Some v \<Rightarrow> v)"
  by (simp add: demo_env_def)

lemma trim_empty [simp]: "trim [] = []"
  by (simp add: trim_def)

lemma parse_demo: "parseInputs (demo_env demo_inputs l f) = Inr demo_parsed"
  by (simp add: parseInputs_def or_throw_def getInput_required_def getOptionalBooleanInput_def
        getOptionalInput_def getInput_def map_of_demo_inputs demo_parsed_def trim_plain is_ws_def)


lemma demo_env_answers [simp]:
  "other_text (demo_env ins l f) = (\<lambda>s k. s)"
  "latest_release (demo_env ins l f) t = l"
  "list_commits (demo_env ins l f) t s k =
     (if ''listCommits'' \<in> set f then Inl demo_exn else Inr demo_commits)"
  "get_branch (demo_env ins l f) t b =
     (if ''getBranch'' \<in> set f then Inl demo_exn else Inr ''c3c3c3c3c3c3'')"
  "create_release (demo_env ins l f) t tg nm bd d p =
     (if ''createRelease'' \<in> set f then Inl demo_exn
      else Inr (7, ''https://git.test/o/r/releases/7'', ''https://git.test/o/r/releases/7/assets''))"
  "create_ref (demo_env ins l f) t r s' = (if ''createRef'' \<in> set f then Inl demo_exn else Inr ())"
  "create_pull (demo_env ins l f) t a b' c d' =
     (if ''createPullRequest'' \<in> set f then Inl demo_exn else Inr (3, ''https://git.test/o/r/pulls/3''))"
  "add_labels (demo_env ins l f) t i ls = (if ''addLabels'' \<in> set f then Inl demo_exn else Inr ())"
  by (simp_all add: demo_env_def)

lemma demo_parsed_fields [simp]:
  "skipGiteaRelease demo_parsed = None"
  "skipGiteaPullRequest demo_parsed = None"
  "skipLabeling demo_parsed = None"
  "includeComponentInTag demo_parsed = None"
  "releaseAs demo_parsed = None"
  "versioningStrategy demo_parsed = None"
  "ActionInputs.path demo_parsed = None"
  "targetBranch demo_parsed = ''main''"
  by (simp_all add: demo_parsed_def)

theorem skip_flags_default_witness:
  "parseInputs (demo_env demo_inputs (Inr ''v1.2.3'') []) = Inr demo_parsed
   \<and> getInput (demo_env demo_inputs (Inr ''v1.2.3'') []) ''skip-gitea-release'' = []
   \<and> getInput (demo_env demo_inputs (Inr ''v1.2.3'') []) ''skip-gitea-pull-request'' = []
   \<and> skipGiteaRelease demo_parsed = None \<and> skipGiteaPullRequest demo_parsed = None
   \<and> fst (release_branch (demo_env demo_inputs (Inr ''v1.2.3'') []) demo_parsed start_trace) = Inr ()
   \<and> ''Creating release'' \<in> set (infos (main (demo_env demo_inputs (Inr ''v1.2.3'') [])))
   \<and> ''Creating pull request'' \<in> set (infos (main (demo_env demo_inputs (Inr ''v1.2.3'') [])))"
  using skip_flags_default[OF parse_demo, of "Inr ''v1.2.3''" "[]"]
  by (simp add: parse_demo getInput_def map_of_demo_inputs release_phase_def
        release_branch_eq Let_def)

lemma output_values_simps [simp]:
  "output_values k [] = []"
  "output_values k (a @ b) = output_values k a @ output_values k b"
  "output_values k (SetOutput k' v # t) = (if k' = k then v # output_values k t else output_values k t)"
  "output_values k (Info m # t) = output_values k t"
  "output_values k (Warning m # t) = output_values k t"
  "output_values k (Error m # t) = output_values k t"
  "output_values k (SetFailed m # t) = output_values k t"
  "output_values k (Request q # t) = output_values k t"
  by (simp_all add: output_values_def)

lemma output_values_no_outputs: "outputs es = [] \<Longrightarrow> output_values k es = []"
  by (simp add: output_values_def)

lemma key_prefix_eq:
  assumes "key_prefix p @ k = K" "CHR ''-'' \<notin> set K"
  shows "k = K"
proof (cases "p = ''.''")
  case True
  with assms show ?thesis by (simp add: key_prefix_def)
next
  case False
  with assms(1) have "K = p @ ''--'' @ k" by (simp add: key_prefix_def)
  then have "CHR ''-'' \<in> set K" by simp
  with assms(2) show ?thesis by simp
qed

lemma output_values_emit:
  "CHR ''-'' \<notin> set K \<Longrightarrow> k \<noteq> K \<Longrightarrow> output_values K (emit (key_prefix p) k v) = []"
  using key_prefix_eq[of p k K] by (cases v) auto

lemma release_outputs_flags:
  "output_values ''releases_created'' (release_outputs r) = []"
  "output_values ''prs_created'' (release_outputs r) = []"
proof -
  have a: "output_values K (release_outputs r) = []"
    if "CHR ''-'' \<notin> set K"
       "K \<notin> set [''release_created'', ''tag_name'', ''name'', ''body'', ''draft'', ''prerelease'',
                  ''path'', ''version'', ''major'', ''minor'', ''patch'', ''sha'', ''id'',
                  ''html_url'', ''upload_url'']" for K
  proof -
    have e: "output_values K (emit (key_prefix (Release.path r)) k v) = []"
      if "K \<noteq> k" for k v
      using output_values_emit[OF \<open>CHR ''-'' \<notin> set K\<close>, of k] that by auto
    have h: "key_prefix (Release.path r) @ ''release_created'' \<noteq> K"
      using key_prefix_eq[OF _ that(1), of "Release.path r" "''release_created''"] that(2) by auto
    from that(2) h show ?thesis
      by (simp add: release_outputs_def Let_def e del: emit.simps)
  qed
  show "output_values ''releases_created'' (release_outputs r) = []" by (rule a) simp_all
  show "output_values ''prs_created'' (release_outputs r) = []" by (rule a) simp_all
qed

lemma release_branch_flags:
  "output_values ''releases_created'' (snd (release_branch env inputs t0)) =
     output_values ''releases_created'' t0
     @ (if fst (release_branch env inputs t0) = Inr () then [Bool True] else [])"
  "output_values ''prs_created'' (snd (release_branch env inputs t0)) =
     output_values ''prs_created'' t0"
  by (simp_all add: release_simps release_outputs_flags output_values_no_outputs
        split: sum.splits)

lemma pr_branch_flags:
  "output_values ''prs_created'' (snd (pr_branch env inputs t0)) =
     output_values ''prs_created'' t0
     @ (if fst (pr_branch env inputs t0) = Inr () then [Bool True] else [])"
  "output_values ''releases_created'' (snd (pr_branch env inputs t0)) =
     output_values ''releases_created'' t0"
  by (simp_all add: pr_simps output_values_no_outputs split: sum.splits)

lemma main_flags:
  assumes "parseInputs env = Inr inputs" "CHR ''-'' \<notin> set K"
  shows "output_values K (main env) =
     (if fst (release_phase env inputs) = Inr () then output_values K (snd (pr_phase env inputs))
      else output_values K (snd (release_phase env inputs)))"
  unfolding main_eq assms
  by (cases "fst (release_phase env inputs)"; cases "fst (pr_phase env inputs)") simp_all

lemma release_phase_flags:
  "output_values ''releases_created'' (snd (release_phase env inputs)) =
     (if skipGiteaRelease inputs \<noteq> Some True \<and> fst (release_phase env inputs) = Inr ()
      then [Bool True] else [])"
  "output_values ''prs_created'' (snd (release_phase env inputs)) = []"
  by (simp_all add: release_phase_def start_trace_def release_branch_flags)

lemma pr_phase_flags:
  "output_values ''prs_created'' (snd (pr_phase env inputs)) =
     (if skipGiteaPullRequest inputs \<noteq> Some True \<and> fst (pr_phase env inputs) = Inr ()
      then [Bool True] else [])"
  "output_values ''releases_created'' (snd (pr_phase env inputs)) =
     output_values ''releases_created'' (snd (release_phase env inputs))"
  by (simp_all add: pr_phase_def pr_branch_flags release_phase_flags)

lemma created_flags:
  assumes "parseInputs env = Inr inputs"
  shows "output_values ''releases_created'' (main env) =
           (if skipGiteaRelease inputs \<noteq> Some True \<and> fst (release_phase env inputs) = Inr ()
            then [Bool True] else [])"
    and "output_values ''prs_created'' (main env) =
           (if skipGiteaPullRequest inputs \<noteq> Some True \<and> fst (release_phase env inputs) = Inr ()
               \<and> fst (pr_phase env inputs) = Inr ()
            then [Bool True] else [])"
  by (simp_all add: main_flags[OF assms] release_phase_flags pr_phase_flags)

text \<open>
  C3 (as amended). In every run whose inputs parse, \<^verbatim>\<open>releases_created\<close> is set exactly
  when the release branch is not skipped and returns, and \<^verbatim>\<open>prs_created\<close> exactly when
  the pull-request branch is not skipped and returns (after a release phase that did not
  throw); the value is then \<^verbatim>\<open>true\<close>. A skipped branch sets no flag at all. The
  formatters themselves set the flag to \<^verbatim>\<open>false\<close> for an empty list, which \<open>main\<close> never
  passes.
\<close>

theorem created_flags_emitted:
  assumes "parseInputs env = Inr inputs"
  shows "output_values ''releases_created'' (main env) =
           (if skipGiteaRelease inputs \<noteq> Some True \<and> fst (release_phase env inputs) = Inr ()
            then [Bool True] else [])
       \<and> output_values ''prs_created'' (main env) =
           (if skipGiteaPullRequest inputs \<noteq> Some True \<and> fst (release_phase env inputs) = Inr ()
               \<and> fst (pr_phase env inputs) = Inr ()
            then [Bool True] else [])
       \<and> outputReleases [] t = t @ [SetOutput ''releases_created'' (Bool False),
                                    SetOutput ''paths_released'' (JsonStrings [])]
       \<and> outputPRs [] t = t @ [SetOutput ''prs_created'' (Bool False)]"
  using created_flags[OF assms]
  by (simp add: outputReleases_def outputPRs_def defined_def)

lemma prefix_split: "take (length a) b = a \<Longrightarrow> b = a @ drop (length a) b"
  by (metis append_take_drop_id)

lemma prefix_append: "take (length a) b = a \<Longrightarrow> take (length a) (b @ c) = a"
proof -
  assume h: "take (length a) b = a"
  then have "length (take (length a) b) = length a" by simp
  then have "length a \<le> length b" by (simp add: min_def split: if_splits)
  with h show ?thesis by simp
qed

lemma release_branch_split:
  "snd (release_branch env inputs t0) = t0 @ events_of t0 (release_branch env inputs t0)"
  unfolding events_of_def using prefix_split[OF release_branch_prefix] .

lemma pr_branch_split:
  "snd (pr_branch env inputs t0) = t0 @ events_of t0 (pr_branch env inputs t0)"
  unfolding events_of_def using prefix_split[OF pr_branch_prefix] .

text \<open>
  C5. In a run with both branches enabled: when the release branch throws, the run
  ends there with the failure mark carrying the text of the thrown value, and the
  pull-request branch does not run (no log line, no request of its own); when the
  release branch returns and the pull-request branch throws, the run ends with the
  failure mark, everything the release branch put on the trace stays in place, and
  \<^verbatim>\<open>releases_created\<close> is set to \<^verbatim>\<open>true\<close>.
\<close>

theorem failure_aborts:
  assumes "parseInputs env = Inr inputs"
      and "skipGiteaRelease inputs \<noteq> Some True" "skipGiteaPullRequest inputs \<noteq> Some True"
  shows "(release_branch env inputs start_trace = (Inl e, t1) \<longrightarrow>
            main env = t1 @ [SetFailed (''release-please failed: '' @ error_text e)]
            \<and> ''Creating pull request'' \<notin> set (infos (main env))
            \<and> (\<forall>q\<in>set (requests (main env)). \<not> pr_request q))
       \<and> (release_branch env inputs start_trace = (Inr (), t1)
            \<and> pr_branch env inputs t1 = (Inl e, t2) \<longrightarrow>
            main env = t2 @ [SetFailed (''release-please failed: '' @ error_text e)]
            \<and> take (length t1) (main env) = t1
            \<and> output_values ''releases_created'' (main env) = [Bool True])"
proof (intro conjI impI)
  assume r: "release_branch env inputs start_trace = (Inl e, t1)"
  then have ph: "release_phase env inputs = (Inl e, t1)"
    using assms(2) by (simp add: release_phase_def)
  show m: "main env = t1 @ [SetFailed (''release-please failed: '' @ error_text e)]"
    unfolding main_eq assms(1) by (simp add: ph)
  have i: "infos t1 = [''Starting Gitea release-please process'', ''Creating release'']"
    using release_branch_infos[of env inputs start_trace] r by (simp add: start_trace_def)
  show "''Creating pull request'' \<notin> set (infos (main env))"
    by (simp add: m i)
  have "requests t1 = requests (events_of start_trace (release_branch env inputs start_trace))"
    using arg_cong[OF release_branch_split[of env inputs start_trace], of requests] r
    by (simp add: start_trace_def)
  then show "\<forall>q\<in>set (requests (main env)). \<not> pr_request q"
    using release_branch_requests[of _ start_trace env inputs] by (simp add: m)
next
  assume a: "release_branch env inputs start_trace = (Inr (), t1)
            \<and> pr_branch env inputs t1 = (Inl e, t2)"
  then have ph: "release_phase env inputs = (Inr (), t1)"
    using assms(2) by (simp add: release_phase_def)
  then have pp: "pr_phase env inputs = (Inl e, t2)"
    using assms(3) a by (simp add: pr_phase_def)
  show m: "main env = t2 @ [SetFailed (''release-please failed: '' @ error_text e)]"
    unfolding main_eq assms(1) by (simp add: ph pp)
  have "take (length t1) t2 = t1"
    using pr_branch_prefix[of t1 env inputs] a by simp
  then show "take (length t1) (main env) = t1"
    unfolding m by (rule prefix_append)
  show "output_values ''releases_created'' (main env) = [Bool True]"
    using created_flags(1)[OF assms(1)] assms(2) by (simp add: ph)
qed

lemma parse_scenario: "parseInputs scenario_env = Inr scenario_parsed"
  by (simp add: parseInputs_def or_throw_def getInput_required_def getOptionalBooleanInput_def
        getBooleanInput_def getOptionalInput_def getInput_def scenario_env_def scenario_inputs_def
        map_of_demo_inputs scenario_parsed_def demo_parsed_def trim_plain is_ws_def)

lemma bump_demo:
  "bump f ''v1.2.3'' None = ''1.2.4''"
  "bump f ''v1.2.3'' (Some ''always-bump-patch'') = ''1.2.4''"
  by (simp_all add: number_defs bump_defs)

lemma changelog_demo:
  "changelog_loop (Some ''v1.2.3'') demo_commits (''## Changes'' @ [CHR 0x0A, CHR 0x0A]) =
     demo_changelog"
  apply (simp add: demo_commits_def first_line_def)
  apply (simp add: demo_changelog_def)
  done

lemma scenario_parsed_fields [simp]:
  "skipGiteaRelease scenario_parsed = None"
  "skipGiteaPullRequest scenario_parsed = Some True"
  "includeComponentInTag scenario_parsed = None"
  "releaseAs scenario_parsed = None"
  "versioningStrategy scenario_parsed = Some ''always-bump-patch''"
  "ActionInputs.path scenario_parsed = None"
  "targetBranch scenario_parsed = ''main''"
  by (simp_all add: scenario_parsed_def demo_parsed_def)

lemma release_outputs_root:
  "release_outputs
     \<lparr>id_field = Some i, tagName = tg, name = nm, body = bd, draft = Some False,
      prerelease = Some False, path = ''.'', version = Some v, major = None, minor = None,
      patch = None, sha = None, url = Some u, uploadUrl = Some up\<rparr> =
   [SetOutput ''release_created'' (Bool True),
    SetOutput ''tag_name'' (Str tg),
    SetOutput ''name'' (Str nm),
    SetOutput ''body'' (Str bd),
    SetOutput ''draft'' (Bool False),
    SetOutput ''prerelease'' (Bool False),
    SetOutput ''path'' (Str ''.''),
    SetOutput ''version'' (Str v),
    SetOutput ''id'' (Numv i),
    SetOutput ''html_url'' (Str u),
    SetOutput ''upload_url'' (Str up)]"
  by (simp add: release_outputs_def key_prefix_def)

lemma release_scenario:
  "release_branch scenario_env scenario_parsed t0 = (Inr (), t0 @ demo_release_events)"
  by (simp add: release_simps scenario_env_def resolved_def resolver_requests_def release_tag_def
        bump_demo changelog_demo[simplified] release_outputs_root demo_release_events_def)

lemma main_scenario:
  "main scenario_env =
     start_trace @ demo_release_events
     @ [Info ''Release-please process completed successfully'']"
  by (simp add: main_eq parse_scenario release_phase_def pr_phase_def release_scenario)

text \<open>
  C3 as stated fails on its own scenario: with the prior release \<^verbatim>\<open>v1.2.3\<close>, the strategy
  \<^verbatim>\<open>always-bump-patch\<close> and the pull-request branch skipped, the run sets
  \<^verbatim>\<open>releases_created\<close> to \<^verbatim>\<open>true\<close> and the tag to \<^verbatim>\<open>v1.2.4\<close>, and sets no
  \<^verbatim>\<open>prs_created\<close> output: \<open>outputPRs\<close> is called only inside the guarded block.
\<close>

theorem created_flags_emitted_counterexample:
  "output_values ''prs_created'' (main scenario_env) = []
   \<and> SetOutput ''prs_created'' (Bool False) \<notin> set (main scenario_env)
   \<and> output_values ''releases_created'' (main scenario_env) = [Bool True]
   \<and> output_values ''tag_name'' (main scenario_env) = [Str ''v1.2.4'']"
  by (simp add: main_scenario start_trace_def demo_release_events_def)

theorem created_flags_emitted_witness:
  "parseInputs scenario_env = Inr scenario_parsed
   \<and> skipGiteaPullRequest scenario_parsed = Some True
   \<and> fst (release_phase scenario_env scenario_parsed) = Inr ()
   \<and> output_values ''releases_created'' (main scenario_env) = [Bool True]
   \<and> output_values ''prs_created'' (main scenario_env) = []
   \<and> outputPRs [] [] = [SetOutput ''prs_created'' (Bool False)]"
  using created_flags_emitted[OF parse_scenario, of "[]"]
  by (simp add: parse_scenario release_phase_def release_scenario)

lemma pr_branch_after_ref_failure:
  assumes "get_branch env (t0 @ Info ''Creating pull request'' # resolver_requests inputs)
             (targetBranch inputs) = Inr b"
      and "create_ref env
             (t0 @ Info ''Creating pull request'' # resolver_requests inputs
                @ [Request (ReposGetBranch (targetBranch inputs))])
             (''refs/heads/'' @ release_branch_name inputs
                                  (resolved env inputs (t0 @ [Info ''Creating pull request''])))
             b = Inl e"
  shows "pr_branch env inputs t0 =
     await (createPullRequest env
              (pull_request inputs (resolved env inputs (t0 @ [Info ''Creating pull request''])))
              (t0 @ Info ''Creating pull request'' # resolver_requests inputs
                 @ [Request (ReposGetBranch (targetBranch inputs)),
                    Request (GitCreateRef
                      (''refs/heads/'' @ release_branch_name inputs
                         (resolved env inputs (t0 @ [Info ''Creating pull request''])))
                      b),
                    Error (''Failed to create ref: '' @ error_text e),
                    Warning (''Branch '' @ release_branch_name inputs
                                (resolved env inputs (t0 @ [Info ''Creating pull request'']))
                             @ '' may already exist'')]))
       (\<lambda>createdPR t4. (Inr (), outputPRs [Some createdPR] t4))"
  using assms
  by (simp add: pr_branch_eq await_createPullRequest Let_def ref_events_def split: sum.splits)

lemma ref_error_prefix: "take 20 (''Failed to create ref: '' @ m) = ''Failed to create ref''"
  by simp

lemma pr_branch_errors:
  "fst (pr_branch env inputs t0) = Inr u \<longrightarrow>
   (\<forall>m\<in>set (errors (events_of t0 (pr_branch env inputs t0))). take 20 m = ''Failed to create ref'')"
  using ref_events_errors
  by (simp add: events_of_def pr_simps split: sum.splits)

lemma pr_branch_warnings:
  "warnings (events_of t0 (pr_branch env inputs t0)) \<noteq> [] \<longrightarrow>
   (\<exists>m\<in>set (errors (events_of t0 (pr_branch env inputs t0))). take 20 m = ''Failed to create ref'')"
  using ref_events_warnings
  by (simp add: events_of_def pr_simps split: sum.splits)

lemma phase_errors:
  "fst (release_phase env inputs) = Inr u \<Longrightarrow> errors (snd (release_phase env inputs)) = []"
  using release_branch_errors[where env=env and inputs=inputs and ?t0.0=start_trace and u=u]
  by (simp add: release_phase_def start_trace_def split: if_splits)

lemma phase_warnings: "warnings (snd (release_phase env inputs)) = []"
  by (simp add: release_phase_def start_trace_def release_branch_warnings)

lemma pr_phase_split:
  "snd (pr_phase env inputs) =
     snd (release_phase env inputs)
     @ (if skipGiteaPullRequest inputs = Some True then []
        else events_of (snd (release_phase env inputs))
               (pr_branch env inputs (snd (release_phase env inputs))))"
  using pr_branch_split[of env inputs "snd (release_phase env inputs)"]
  by (simp add: pr_phase_def)

lemma main_only_ref_errors:
  "(\<forall>m\<in>set (errors (main env)).
       take 20 m \<noteq> ''Failed to create ref'' \<longrightarrow> (\<exists>msg. last (main env) = SetFailed msg))
   \<and> (warnings (main env) \<noteq> [] \<longrightarrow>
        (\<exists>m\<in>set (errors (main env)). take 20 m = ''Failed to create ref''))"
proof (cases "parseInputs env")
  case (Inl e)
  then show ?thesis by (simp add: main_eq)
next
  case (Inr inputs)
  show ?thesis
  proof (cases "fst (release_phase env inputs)")
    case (Inl e)
    then show ?thesis by (simp add: main_eq Inr phase_warnings)
  next
    case rel: (Inr u)
    note pe = pr_branch_errors[where env=env and inputs=inputs
                 and ?t0.0="snd (release_phase env inputs)"]
    note pw = pr_branch_warnings[where env=env and inputs=inputs
                 and ?t0.0="snd (release_phase env inputs)"]
    show ?thesis
    proof (cases "fst (pr_phase env inputs)")
      case (Inl e)
      then show ?thesis
        using pw by (simp add: main_eq Inr rel pr_phase_split phase_warnings phase_errors[OF rel])
    next
      case pr: (Inr u')
      have pe': "skipGiteaPullRequest inputs \<noteq> Some True \<Longrightarrow>
          \<forall>m\<in>set (errors (events_of (snd (release_phase env inputs))
                          (pr_branch env inputs (snd (release_phase env inputs))))).
            take 20 m = ''Failed to create ref''"
        using pe pr by (simp add: pr_phase_def)
      show ?thesis
        using pe' pw
        by (simp add: main_eq Inr rel pr pr_phase_split phase_warnings phase_errors[OF rel])
           blast
    qed
  qed
qed

lemma error_text_demo [simp]: "error_text demo_exn = ''HttpError: Not Found''"
  by (simp add: error_text_def demo_exn_def)

lemma release_demo:
  assumes "''getBranch'' \<notin> set f" "''listCommits'' \<notin> set f" "''createRelease'' \<notin> set f"
  shows "release_branch (demo_env ins (Inr ''v1.2.3'') f) demo_parsed t0 =
     (Inr (), t0 @ demo_release_events)"
  using assms
  by (simp add: release_simps resolved_def resolver_requests_def release_tag_def
        bump_demo changelog_demo[simplified] release_outputs_root demo_release_events_def)

lemma pr_demo:
  assumes "''getBranch'' \<notin> set f" "''createPullRequest'' \<notin> set f" "''addLabels'' \<notin> set f"
  shows "pr_branch (demo_env ins (Inr ''v1.2.3'') f) demo_parsed t0 =
     (Inr (), t0 @ demo_pr_events (''createRef'' \<in> set f))"
  using assms
  by (simp add: pr_simps resolved_def resolver_requests_def release_branch_name_def
        pull_request_def pulls_create_def pr_labels_def ref_events_def
        bump_demo demo_pr_events_def demo_pull_request_def)

lemma pr_branch_sends_pull:
  assumes "get_branch env (t0 @ Info ''Creating pull request'' # resolver_requests inputs)
             (targetBranch inputs) = Inr b"
  shows "PullsCreate (''chore: release '' @ resolved env inputs (t0 @ [Info ''Creating pull request'']))
           (PullRequest.body (pull_request inputs
              (resolved env inputs (t0 @ [Info ''Creating pull request'']))))
           (release_branch_name inputs (resolved env inputs (t0 @ [Info ''Creating pull request''])))
           (targetBranch inputs) \<in> set (requests (snd (pr_branch env inputs t0)))"
  using assms by (simp add: pr_simps pulls_create_def split: sum.splits)

text \<open>
  C6. In the pull-request branch, when the branch lookup succeeds and the ref creation
  fails, the failure is logged, the warning \<^verbatim>\<open>Branch ... may already exist\<close> is
  emitted, and the branch goes on with the creation of the pull request, whose head is
  the derived name \<^verbatim>\<open>release-please--<target>--<version>\<close>: the request is on the trace.
  No other failure is downgraded: in every run, an error line other than the one of the
  ref creation comes with the failure mark at the end of the trace, and a warning
  appears only together with a failed ref creation.
\<close>

theorem ref_failure_downgraded:
  "(let v = resolved env inputs (t0 @ [Info ''Creating pull request'']);
        nm = release_branch_name inputs v;
        t1 = t0 @ Info ''Creating pull request'' # resolver_requests inputs;
        t2 = t1 @ [Request (ReposGetBranch (targetBranch inputs))]
    in get_branch env t1 (targetBranch inputs) = Inr b
       \<and> create_ref env t2 (''refs/heads/'' @ nm) b = Inl e \<longrightarrow>
       pr_branch env inputs t0 =
         await (createPullRequest env (pull_request inputs v)
                  (t2 @ [Request (GitCreateRef (''refs/heads/'' @ nm) b),
                         Error (''Failed to create ref: '' @ error_text e),
                         Warning (''Branch '' @ nm @ '' may already exist'')]))
           (\<lambda>createdPR t4. (Inr (), outputPRs [Some createdPR] t4))
       \<and> nm = ''release-please--'' @ targetBranch inputs @ ''--'' @ v
       \<and> headBranchName (pull_request inputs v) = nm
       \<and> PullsCreate (''chore: release '' @ v) (PullRequest.body (pull_request inputs v)) nm
            (targetBranch inputs) \<in> set (requests (snd (pr_branch env inputs t0))))
   \<and> (\<forall>m\<in>set (errors (main env)).
         take 20 m \<noteq> ''Failed to create ref'' \<longrightarrow> (\<exists>msg. last (main env) = SetFailed msg))
   \<and> (warnings (main env) \<noteq> [] \<longrightarrow>
        (\<exists>m\<in>set (errors (main env)). take 20 m = ''Failed to create ref''))"
  unfolding Let_def
proof (intro conjI impI; (elim conjE)?)
  show "\<forall>m\<in>set (errors (main env)).
         take 20 m \<noteq> ''Failed to create ref'' \<longrightarrow> (\<exists>msg. last (main env) = SetFailed msg)"
    using main_only_ref_errors[of env] by blast
  show "\<exists>m\<in>set (errors (main env)). take 20 m = ''Failed to create ref''"
    if "warnings (main env) \<noteq> []"
    using main_only_ref_errors[of env] that by blast
  show "release_branch_name inputs (resolved env inputs (t0 @ [Info ''Creating pull request''])) =
        ''release-please--'' @ targetBranch inputs @ ''--''
        @ resolved env inputs (t0 @ [Info ''Creating pull request''])"
    by (simp add: release_branch_name_def)
  show "headBranchName (pull_request inputs
          (resolved env inputs (t0 @ [Info ''Creating pull request'']))) =
        release_branch_name inputs (resolved env inputs (t0 @ [Info ''Creating pull request'']))"
    by simp
next
  assume g: "get_branch env (t0 @ Info ''Creating pull request'' # resolver_requests inputs)
               (targetBranch inputs) = Inr b"
     and r: "create_ref env
               ((t0 @ Info ''Creating pull request'' # resolver_requests inputs)
                  @ [Request (ReposGetBranch (targetBranch inputs))])
               (''refs/heads/'' @ release_branch_name inputs
                                    (resolved env inputs (t0 @ [Info ''Creating pull request''])))
               b = Inl e"
  from r have r': "create_ref env
               (t0 @ Info ''Creating pull request'' # resolver_requests inputs
                  @ [Request (ReposGetBranch (targetBranch inputs))])
               (''refs/heads/'' @ release_branch_name inputs
                                    (resolved env inputs (t0 @ [Info ''Creating pull request''])))
               b = Inl e"
    by simp
  show "pr_branch env inputs t0 =
         await (createPullRequest env
                  (pull_request inputs (resolved env inputs (t0 @ [Info ''Creating pull request''])))
                  (((t0 @ Info ''Creating pull request'' # resolver_requests inputs)
                     @ [Request (ReposGetBranch (targetBranch inputs))])
                   @ [Request (GitCreateRef (''refs/heads/'' @ release_branch_name inputs
                           (resolved env inputs (t0 @ [Info ''Creating pull request'']))) b),
                        Error (''Failed to create ref: '' @ error_text e),
                        Warning (''Branch '' @ release_branch_name inputs
                           (resolved env inputs (t0 @ [Info ''Creating pull request'']))
                           @ '' may already exist'')]))
           (\<lambda>createdPR t4. (Inr (), outputPRs [Some createdPR] t4))"
    using pr_branch_after_ref_failure[OF g r'] by simp
  show "PullsCreate (''chore: release '' @ resolved env inputs (t0 @ [Info ''Creating pull request'']))
           (PullRequest.body (pull_request inputs
              (resolved env inputs (t0 @ [Info ''Creating pull request'']))))
           (release_branch_name inputs (resolved env inputs (t0 @ [Info ''Creating pull request''])))
           (targetBranch inputs) \<in> set (requests (snd (pr_branch env inputs t0)))"
    by (rule pr_branch_sends_pull[OF g])
qed

lemma release_demo_failed:
  "release_branch (demo_env ins (Inr ''v1.2.3'') [''createRelease'']) demo_parsed t0 =
     (Inl demo_exn, t0 @ demo_release_failed_events)"
  by (simp add: release_simps resolved_def resolver_requests_def release_tag_def
        bump_demo changelog_demo[simplified] demo_release_failed_events_def)

lemma pr_demo_failed:
  "pr_branch (demo_env ins (Inr ''v1.2.3'') [''createPullRequest'']) demo_parsed t0 =
     (Inl demo_exn, t0 @ demo_pr_failed_events)"
  by (simp add: pr_simps resolved_def resolver_requests_def release_branch_name_def
        pull_request_def pulls_create_def pr_labels_def ref_events_def
        bump_demo demo_pr_failed_events_def)

lemma main_demo:
  "main (demo_env demo_inputs (Inr ''v1.2.3'') []) =
     start_trace @ demo_release_events @ demo_pr_events False
     @ [Info ''Release-please process completed successfully'']"
  "main (demo_env demo_inputs (Inr ''v1.2.3'') [''createRef'']) =
     start_trace @ demo_release_events @ demo_pr_events True
     @ [Info ''Release-please process completed successfully'']"
  "main (demo_env demo_inputs (Inr ''v1.2.3'') [''createRelease'']) =
     start_trace @ demo_release_failed_events
     @ [SetFailed ''release-please failed: HttpError: Not Found'']"
  "main (demo_env demo_inputs (Inr ''v1.2.3'') [''createPullRequest'']) =
     start_trace @ demo_release_events @ demo_pr_failed_events
     @ [SetFailed ''release-please failed: HttpError: Not Found'']"
  by (simp_all add: main_eq parse_demo release_phase_def pr_phase_def release_demo pr_demo
        release_demo_failed pr_demo_failed)

text \<open>
  C10 as stated fails when the release branch throws: with both skip inputs absent and
  the release request refused, the inputs parse, both flags are \<^verbatim>\<open>undefined\<close>, the
  release branch is entered and the pull-request branch is not. It fails as well when a
  required input is missing: \<open>parseInputs\<close> throws and no branch is entered.
\<close>

theorem skip_flags_default_counterexample:
  "parseInputs (demo_env demo_inputs (Inr ''v1.2.3'') [''createRelease'']) = Inr demo_parsed
   \<and> getInput (demo_env demo_inputs (Inr ''v1.2.3'') [''createRelease'']) ''skip-gitea-release'' = []
   \<and> getInput (demo_env demo_inputs (Inr ''v1.2.3'') [''createRelease''])
        ''skip-gitea-pull-request'' = []
   \<and> skipGiteaRelease demo_parsed = None \<and> skipGiteaPullRequest demo_parsed = None
   \<and> infos (main (demo_env demo_inputs (Inr ''v1.2.3'') [''createRelease''])) =
       [''Starting Gitea release-please process'', ''Creating release'']
   \<and> ''Creating pull request''
       \<notin> set (infos (main (demo_env demo_inputs (Inr ''v1.2.3'') [''createRelease''])))
   \<and> getInput (demo_env [] (Inr ''v1.2.3'') []) ''skip-gitea-release'' = []
   \<and> getInput (demo_env [] (Inr ''v1.2.3'') []) ''skip-gitea-pull-request'' = []
   \<and> main (demo_env [] (Inr ''v1.2.3'') []) =
       [SetFailed ''release-please failed: Error: Input required and not supplied: token'']"
proof -
  have p: "main (demo_env [] (Inr ''v1.2.3'') []) =
      [SetFailed ''release-please failed: Error: Input required and not supplied: token'']"
    by (simp add: main_def parseInputs_def or_throw_def getInput_required_def error_text_def)
  show ?thesis
    unfolding p
    by (simp add: parse_demo getInput_def map_of_demo_inputs main_demo start_trace_def
          demo_release_failed_events_def)
qed

lemma demo_events_logs [simp]:
  "warnings start_trace = []" "errors start_trace = []"
  "warnings demo_release_events = []" "errors demo_release_events = []"
  "warnings (demo_pr_events True) = [''Branch release-please--main--1.2.4 may already exist'']"
  "errors (demo_pr_events True) = [''Failed to create ref: HttpError: Not Found'']"
  "warnings demo_pr_failed_events = []"
  "errors demo_pr_failed_events = [''Failed to create pull request: HttpError: Not Found'']"
  by (simp_all add: start_trace_def demo_release_events_def demo_pr_events_def
        demo_pr_failed_events_def)

theorem ref_failure_downgraded_witness:
  "PullsCreate ''chore: release 1.2.4''
        (''Release 1.2.4'' @ [CHR 0x0A, CHR 0x0A]
         @ ''This PR was generated by release-please for Gitea.'')
        ''release-please--main--1.2.4'' ''main''
      \<in> set (requests (snd (pr_branch (demo_env demo_inputs (Inr ''v1.2.3'') [''createRef''])
                              demo_parsed [])))
   \<and> warnings (main (demo_env demo_inputs (Inr ''v1.2.3'') [''createRef''])) =
       [''Branch release-please--main--1.2.4 may already exist'']
   \<and> errors (main (demo_env demo_inputs (Inr ''v1.2.3'') [''createRef''])) =
       [''Failed to create ref: HttpError: Not Found'']
   \<and> last (main (demo_env demo_inputs (Inr ''v1.2.3'') [''createRef''])) =
       Info ''Release-please process completed successfully''
   \<and> errors (main (demo_env demo_inputs (Inr ''v1.2.3'') [''createPullRequest''])) =
       [''Failed to create pull request: HttpError: Not Found'']
   \<and> last (main (demo_env demo_inputs (Inr ''v1.2.3'') [''createPullRequest''])) =
       SetFailed ''release-please failed: HttpError: Not Found''"
proof -
  let ?env = "demo_env demo_inputs (Inr ''v1.2.3'') [''createRef'']"
  note t = ref_failure_downgraded[of ?env demo_parsed "[]" "''c3c3c3c3c3c3''" demo_exn,
             unfolded Let_def, THEN conjunct1, rule_format]
  have h: "get_branch ?env ([] @ Info ''Creating pull request'' # resolver_requests demo_parsed)
             (targetBranch demo_parsed) = Inr ''c3c3c3c3c3c3''
           \<and> create_ref ?env
               (([] @ Info ''Creating pull request'' # resolver_requests demo_parsed)
                 @ [Request (ReposGetBranch (targetBranch demo_parsed))])
               (''refs/heads/'' @ release_branch_name demo_parsed
                  (resolved ?env demo_parsed ([] @ [Info ''Creating pull request''])))
               ''c3c3c3c3c3c3'' = Inl demo_exn"
    by simp
  from t[OF h] have "PullsCreate
       (''chore: release '' @ resolved ?env demo_parsed ([] @ [Info ''Creating pull request'']))
       (PullRequest.body (pull_request demo_parsed
          (resolved ?env demo_parsed ([] @ [Info ''Creating pull request'']))))
       (release_branch_name demo_parsed
          (resolved ?env demo_parsed ([] @ [Info ''Creating pull request''])))
       (targetBranch demo_parsed) \<in> set (requests (snd (pr_branch ?env demo_parsed [])))"
    by blast
  then have "PullsCreate ''chore: release 1.2.4''
        (''Release 1.2.4'' @ [CHR 0x0A, CHR 0x0A]
         @ ''This PR was generated by release-please for Gitea.'')
        ''release-please--main--1.2.4'' ''main''
      \<in> set (requests (snd (pr_branch ?env demo_parsed [])))"
    by (simp add: resolved_def bump_demo release_branch_name_def pull_request_def)
  then show ?thesis
    by (simp add: main_demo)
qed

theorem failure_aborts_witness:
  "release_branch (demo_env demo_inputs (Inr ''v1.2.3'') [''createRelease'']) demo_parsed start_trace =
     (Inl demo_exn, start_trace @ demo_release_failed_events)
   \<and> main (demo_env demo_inputs (Inr ''v1.2.3'') [''createRelease'']) =
       start_trace @ demo_release_failed_events
       @ [SetFailed ''release-please failed: HttpError: Not Found'']
   \<and> ''Creating pull request''
       \<notin> set (infos (main (demo_env demo_inputs (Inr ''v1.2.3'') [''createRelease''])))
   \<and> pr_branch (demo_env demo_inputs (Inr ''v1.2.3'') [''createPullRequest'']) demo_parsed
        (start_trace @ demo_release_events) =
       (Inl demo_exn, start_trace @ demo_release_events @ demo_pr_failed_events)
   \<and> main (demo_env demo_inputs (Inr ''v1.2.3'') [''createPullRequest'']) =
       start_trace @ demo_release_events @ demo_pr_failed_events
       @ [SetFailed ''release-please failed: HttpError: Not Found'']
   \<and> output_values ''releases_created''
        (main (demo_env demo_inputs (Inr ''v1.2.3'') [''createPullRequest''])) = [Bool True]"
  using failure_aborts[OF parse_demo[of "Inr ''v1.2.3''" "[''createRelease'']"],
          where e=demo_exn and ?t1.0="start_trace @ demo_release_failed_events"]
        failure_aborts[OF parse_demo[of "Inr ''v1.2.3''" "[''createPullRequest'']"],
          where e=demo_exn and ?t1.0="start_trace @ demo_release_events"
            and ?t2.0="start_trace @ demo_release_events @ demo_pr_failed_events"]
  by (simp add: release_demo_failed release_demo pr_demo_failed start_trace_def
        demo_release_failed_events_def demo_release_events_def demo_pr_failed_events_def)

lemma next_version_resolved:
  "next_version env inputs t = (Inr (resolved env inputs t), t @ resolver_requests inputs)"
  using await_next_version[of env inputs t "\<lambda>v t'. (Inr v, t')"]
  by (cases "next_version env inputs t") (auto simp: await_def split: sum.splits)

lemma resolved_override:
  assumes "releaseAs inputs = Some v" "v \<noteq> []"
  shows "resolved env inputs t = v" "resolver_requests inputs = []"
  using assms by (simp_all add: resolved_def resolver_requests_def)

lemma resolved_no_override:
  assumes "truthy (releaseAs inputs) = None"
  shows "resolver_requests inputs = [Request ReposGetLatestRelease]"
    and "next_version env inputs t = determineNextVersion env (versioningStrategy inputs) t"
  using assms by (simp_all add: resolver_requests_def next_version_def)

lemma release_branch_lookups:
  "count_list (requests (events_of t0 (release_branch env inputs t0))) ReposGetLatestRelease
     \<le> Suc (length (resolver_requests inputs))"
  by (simp add: events_of_def release_simps resolver_requests_def split: sum.splits option.splits)

lemma pr_branch_lookups:
  "count_list (requests (events_of t0 (pr_branch env inputs t0))) ReposGetLatestRelease
     = length (resolver_requests inputs)"
  by (simp add: events_of_def pr_simps resolver_requests_def pulls_create_def
        split: sum.splits option.splits)

lemma branch_first_request:
  "take 1 (requests (events_of t0 (release_branch env inputs t0))) =
     take 1 (requests (resolver_requests inputs) @ [ReposGetBranch (targetBranch inputs)])"
  "take 1 (requests (events_of t0 (pr_branch env inputs t0))) =
     take 1 (requests (resolver_requests inputs) @ [ReposGetBranch (targetBranch inputs)])"
  by (simp_all add: events_of_def release_simps pr_simps resolver_requests_def
        split: sum.splits option.splits)

lemma release_branch_sends:
  "fst (release_branch env inputs t0) = Inr () \<longrightarrow>
   (\<exists>bd. ReposCreateRelease
            (release_tag inputs (resolved env inputs (t0 @ [Info ''Creating release''])))
            (''Release '' @ resolved env inputs (t0 @ [Info ''Creating release'']))
            bd False False
          \<in> set (requests (events_of t0 (release_branch env inputs t0))))"
  by (simp add: events_of_def release_simps split: sum.splits)

lemma pr_branch_sends:
  "fst (pr_branch env inputs t0) = Inr () \<longrightarrow>
   (\<exists>ti bd. PullsCreate ti bd
            (release_branch_name inputs (resolved env inputs (t0 @ [Info ''Creating pull request''])))
            (targetBranch inputs)
          \<in> set (requests (events_of t0 (pr_branch env inputs t0))))"
  by (simp add: events_of_def pr_simps pulls_create_def split: sum.splits)

text \<open>
  C9. When the override \<^verbatim>\<open>releaseAs\<close> is set (a non-empty string \<open>v\<close>), the version
  expression of both branches returns \<open>v\<close> without touching the trace, so without any
  request: the first request of each branch is the branch lookup, the pull-request
  branch sends no latest-release request at all, the release branch at most one (the
  one the changelog needs), and every release and pull request that is submitted carries
  \<open>v\<close>. When the override is absent, the version expression is \<open>determineNextVersion\<close>,
  and the first request of each branch is the latest-release lookup.
\<close>

theorem release_as_overrides:
  "(releaseAs inputs = Some v \<and> v \<noteq> [] \<longrightarrow>
      next_version env inputs t = (Inr v, t)
      \<and> take 1 (requests (events_of t0 (release_branch env inputs t0))) =
          [ReposGetBranch (targetBranch inputs)]
      \<and> take 1 (requests (events_of t0 (pr_branch env inputs t0))) =
          [ReposGetBranch (targetBranch inputs)]
      \<and> count_list (requests (events_of t0 (release_branch env inputs t0)))
            ReposGetLatestRelease \<le> 1
      \<and> count_list (requests (events_of t0 (pr_branch env inputs t0)))
            ReposGetLatestRelease = 0
      \<and> (\<forall>q\<in>set (requests (events_of t0 (release_branch env inputs t0))).
            \<forall>tg nm bd d p. q = ReposCreateRelease tg nm bd d p \<longrightarrow>
              nm = ''Release '' @ v \<and> tg = release_tag inputs v)
      \<and> (\<forall>q\<in>set (requests (events_of t0 (pr_branch env inputs t0))).
            \<forall>ti bd h bs. q = PullsCreate ti bd h bs \<longrightarrow>
              ti = ''chore: release '' @ v
              \<and> h = ''release-please--'' @ targetBranch inputs @ ''--'' @ v))
   \<and> (truthy (releaseAs inputs) = None \<longrightarrow>
      next_version env inputs t = determineNextVersion env (versioningStrategy inputs) t
      \<and> take 1 (requests (events_of t0 (release_branch env inputs t0))) =
          [ReposGetLatestRelease]
      \<and> take 1 (requests (events_of t0 (pr_branch env inputs t0))) =
          [ReposGetLatestRelease])"
proof (intro conjI impI)
  assume a: "releaseAs inputs = Some v \<and> v \<noteq> []"
  then have r: "resolved env inputs t' = v" and q: "resolver_requests inputs = []" for t'
    using resolved_override[of inputs v] by simp_all
  show "next_version env inputs t = (Inr v, t)"
    by (simp add: next_version_resolved r q)
  show "take 1 (requests (events_of t0 (release_branch env inputs t0))) =
          [ReposGetBranch (targetBranch inputs)]"
    unfolding branch_first_request q by simp
  show "take 1 (requests (events_of t0 (pr_branch env inputs t0))) =
          [ReposGetBranch (targetBranch inputs)]"
    unfolding branch_first_request q by simp
  show "count_list (requests (events_of t0 (release_branch env inputs t0)))
            ReposGetLatestRelease \<le> 1"
    using release_branch_lookups[of t0 env inputs] by (simp add: q)
  show "count_list (requests (events_of t0 (pr_branch env inputs t0)))
            ReposGetLatestRelease = 0"
    using pr_branch_lookups[of t0 env inputs] by (simp add: q)
  show "\<forall>q\<in>set (requests (events_of t0 (release_branch env inputs t0))).
            \<forall>tg nm bd d p. q = ReposCreateRelease tg nm bd d p \<longrightarrow>
              nm = ''Release '' @ v \<and> tg = release_tag inputs v"
  proof (intro ballI allI impI)
    fix q tg nm bd d p
    assume "q \<in> set (requests (events_of t0 (release_branch env inputs t0)))"
      and "q = ReposCreateRelease tg nm bd d p"
    then show "nm = ''Release '' @ v \<and> tg = release_tag inputs v"
      using release_branch_requests[of q t0 env inputs] by (simp add: r)
  qed
  show "\<forall>q\<in>set (requests (events_of t0 (pr_branch env inputs t0))).
            \<forall>ti bd h bs. q = PullsCreate ti bd h bs \<longrightarrow>
              ti = ''chore: release '' @ v
              \<and> h = ''release-please--'' @ targetBranch inputs @ ''--'' @ v"
  proof (intro ballI allI impI)
    fix q ti bd h bs
    assume "q \<in> set (requests (events_of t0 (pr_branch env inputs t0)))"
      and "q = PullsCreate ti bd h bs"
    then show "ti = ''chore: release '' @ v
              \<and> h = ''release-please--'' @ targetBranch inputs @ ''--'' @ v"
      using pr_branch_requests[of q t0 env inputs] by (simp add: r release_branch_name_def)
  qed
next
  assume a: "truthy (releaseAs inputs) = None"
  note n = resolved_no_override[OF a]
  show "next_version env inputs t = determineNextVersion env (versioningStrategy inputs) t"
    by (rule n(2))
  show "take 1 (requests (events_of t0 (release_branch env inputs t0))) =
          [ReposGetLatestRelease]"
    unfolding branch_first_request n(1) by simp
  show "take 1 (requests (events_of t0 (pr_branch env inputs t0))) =
          [ReposGetLatestRelease]"
    unfolding branch_first_request n(1) by simp
qed

text \<open>
  C4. \<open>resolved\<close> is the version that the version expression of a branch returns. The
  tag name \<open>release_tag\<close> is the path, \<^verbatim>\<open>-v\<close> and the version when
  \<^verbatim>\<open>includeComponentInTag\<close> is \<^verbatim>\<open>true\<close> and a path is set, and \<^verbatim>\<open>v\<close> and the version
  otherwise. Every release that the release branch submits has this tag name (and the
  name \<^verbatim>\<open>Release <version>\<close>), and it submits one whenever it returns; every pull
  request that the pull-request branch submits has the head
  \<^verbatim>\<open>release-please--<targetBranch>--<version>\<close> and the target branch as base, and it
  submits one whenever it returns.
\<close>

theorem names_derived:
  "fst (next_version env inputs t) = Inr (resolved env inputs t)
   \<and> (includeComponentInTag inputs = Some True \<and> ActionInputs.path inputs = Some p \<and> p \<noteq> [] \<longrightarrow>
        release_tag inputs v = p @ ''-v'' @ v)
   \<and> (includeComponentInTag inputs \<noteq> Some True \<or> truthy (ActionInputs.path inputs) = None \<longrightarrow>
        release_tag inputs v = ''v'' @ v)
   \<and> (\<forall>q\<in>set (requests (events_of t0 (release_branch env inputs t0))).
         \<forall>tg nm bd d' p'. q = ReposCreateRelease tg nm bd d' p' \<longrightarrow>
           tg = release_tag inputs (resolved env inputs (t0 @ [Info ''Creating release'']))
           \<and> nm = ''Release '' @ resolved env inputs (t0 @ [Info ''Creating release'']))
   \<and> (fst (release_branch env inputs t0) = Inr () \<longrightarrow>
         (\<exists>bd. ReposCreateRelease
                  (release_tag inputs (resolved env inputs (t0 @ [Info ''Creating release''])))
                  (''Release '' @ resolved env inputs (t0 @ [Info ''Creating release'']))
                  bd False False
                \<in> set (requests (events_of t0 (release_branch env inputs t0)))))
   \<and> (\<forall>q\<in>set (requests (events_of t0 (pr_branch env inputs t0))).
         \<forall>ti bd h bs. q = PullsCreate ti bd h bs \<longrightarrow>
           h = ''release-please--'' @ targetBranch inputs @ ''--''
               @ resolved env inputs (t0 @ [Info ''Creating pull request''])
           \<and> bs = targetBranch inputs)
   \<and> (fst (pr_branch env inputs t0) = Inr () \<longrightarrow>
         (\<exists>ti bd. PullsCreate ti bd
                  (''release-please--'' @ targetBranch inputs @ ''--''
                   @ resolved env inputs (t0 @ [Info ''Creating pull request'']))
                  (targetBranch inputs)
                \<in> set (requests (events_of t0 (pr_branch env inputs t0)))))"
proof (intro conjI impI)
  show "fst (next_version env inputs t) = Inr (resolved env inputs t)"
    by (simp add: next_version_resolved)
  show "release_tag inputs v = p @ ''-v'' @ v"
    if "includeComponentInTag inputs = Some True \<and> ActionInputs.path inputs = Some p \<and> p \<noteq> []"
    using that by (simp add: release_tag_def)
  show "release_tag inputs v = ''v'' @ v"
    if "includeComponentInTag inputs \<noteq> Some True \<or> truthy (ActionInputs.path inputs) = None"
    using that by (auto simp: release_tag_def split: option.splits)
  show "\<forall>q\<in>set (requests (events_of t0 (release_branch env inputs t0))).
         \<forall>tg nm bd d' p'. q = ReposCreateRelease tg nm bd d' p' \<longrightarrow>
           tg = release_tag inputs (resolved env inputs (t0 @ [Info ''Creating release'']))
           \<and> nm = ''Release '' @ resolved env inputs (t0 @ [Info ''Creating release''])"
  proof (intro ballI allI impI)
    fix q tg nm bd d' p'
    assume "q \<in> set (requests (events_of t0 (release_branch env inputs t0)))"
      and "q = ReposCreateRelease tg nm bd d' p'"
    then show "tg = release_tag inputs (resolved env inputs (t0 @ [Info ''Creating release'']))
           \<and> nm = ''Release '' @ resolved env inputs (t0 @ [Info ''Creating release''])"
      using release_branch_requests[of q t0 env inputs] by simp
  qed
  show "\<exists>bd. ReposCreateRelease
                  (release_tag inputs (resolved env inputs (t0 @ [Info ''Creating release''])))
                  (''Release '' @ resolved env inputs (t0 @ [Info ''Creating release'']))
                  bd False False
                \<in> set (requests (events_of t0 (release_branch env inputs t0)))"
    if "fst (release_branch env inputs t0) = Inr ()"
    using that release_branch_sends[of env inputs t0] by blast
  show "\<forall>q\<in>set (requests (events_of t0 (pr_branch env inputs t0))).
         \<forall>ti bd h bs. q = PullsCreate ti bd h bs \<longrightarrow>
           h = ''release-please--'' @ targetBranch inputs @ ''--''
               @ resolved env inputs (t0 @ [Info ''Creating pull request''])
           \<and> bs = targetBranch inputs"
  proof (intro ballI allI impI)
    fix q ti bd h bs
    assume "q \<in> set (requests (events_of t0 (pr_branch env inputs t0)))"
      and "q = PullsCreate ti bd h bs"
    then show "h = ''release-please--'' @ targetBranch inputs @ ''--''
               @ resolved env inputs (t0 @ [Info ''Creating pull request''])
           \<and> bs = targetBranch inputs"
      using pr_branch_requests[of q t0 env inputs] by (simp add: release_branch_name_def)
  qed
  show "\<exists>ti bd. PullsCreate ti bd
                  (''release-please--'' @ targetBranch inputs @ ''--''
                   @ resolved env inputs (t0 @ [Info ''Creating pull request'']))
                  (targetBranch inputs)
                \<in> set (requests (events_of t0 (pr_branch env inputs t0)))"
    if "fst (pr_branch env inputs t0) = Inr ()"
    using that pr_branch_sends[of env inputs t0] unfolding release_branch_name_def by blast
qed

lemma pkg_inputs_fields [simp]:
  "skipLabeling pkg_inputs = None"
  "includeComponentInTag pkg_inputs = Some True"
  "releaseAs pkg_inputs = Some ''2.3.0''"
  "versioningStrategy pkg_inputs = None"
  "ActionInputs.path pkg_inputs = Some ''pkgA''"
  "targetBranch pkg_inputs = ''main''"
  by (simp_all add: pkg_inputs_def demo_parsed_def)

lemma pkg_requests:
  "requests (events_of [] (release_branch (demo_env [] (Inr ''v1.2.3'') []) pkg_inputs [])) =
     [ReposGetBranch ''main'', ReposGetLatestRelease,
      ReposListCommits (Some ''c3c3c3c3c3c3'') 100,
      ReposCreateRelease ''pkgA-v2.3.0'' ''Release 2.3.0'' demo_changelog False False]"
  "requests (events_of [] (pr_branch (demo_env [] (Inr ''v1.2.3'') []) pkg_inputs [])) =
     [ReposGetBranch ''main'',
      GitCreateRef ''refs/heads/release-please--main--2.3.0'' ''c3c3c3c3c3c3'',
      PullsCreate ''chore: release 2.3.0''
        (''Release 2.3.0'' @ [CHR 0x0A, CHR 0x0A]
         @ ''This PR was generated by release-please for Gitea.'')
        ''release-please--main--2.3.0'' ''main'',
      IssuesAddLabels 3 [''autorelease: pending'']]"
  by (simp_all add: events_of_def release_simps pr_simps resolved_def resolver_requests_def
        release_tag_def release_branch_name_def pull_request_def pulls_create_def pr_labels_def
        changelog_demo[simplified])

lemma demo_first_requests:
  "take 1 (requests (events_of [] (release_branch (demo_env [] (Inr ''v1.2.3'') []) demo_parsed []))) =
     [ReposGetLatestRelease]"
  "take 1 (requests (events_of [] (pr_branch (demo_env [] (Inr ''v1.2.3'') []) demo_parsed []))) =
     [ReposGetLatestRelease]"
  by (simp_all add: release_demo pr_demo events_of_def demo_release_events_def demo_pr_events_def)

theorem release_as_overrides_witness:
  "releaseAs pkg_inputs = Some ''2.3.0''
   \<and> next_version (demo_env [] (Inr ''v1.2.3'') []) pkg_inputs [] = (Inr ''2.3.0'', [])
   \<and> requests (events_of [] (release_branch (demo_env [] (Inr ''v1.2.3'') []) pkg_inputs [])) =
       [ReposGetBranch ''main'', ReposGetLatestRelease,
        ReposListCommits (Some ''c3c3c3c3c3c3'') 100,
        ReposCreateRelease ''pkgA-v2.3.0'' ''Release 2.3.0'' demo_changelog False False]
   \<and> count_list (requests (events_of [] (pr_branch (demo_env [] (Inr ''v1.2.3'') []) pkg_inputs [])))
        ReposGetLatestRelease = 0
   \<and> truthy (releaseAs demo_parsed) = None
   \<and> take 1 (requests (events_of [] (release_branch (demo_env [] (Inr ''v1.2.3'') []) demo_parsed []))) =
       [ReposGetLatestRelease]
   \<and> take 1 (requests (events_of [] (pr_branch (demo_env [] (Inr ''v1.2.3'') []) demo_parsed []))) =
       [ReposGetLatestRelease]"
  using release_as_overrides[of pkg_inputs "''2.3.0''" "demo_env [] (Inr ''v1.2.3'') []" "[]" "[]"]
        release_as_overrides[of demo_parsed "''2.3.0''" "demo_env [] (Inr ''v1.2.3'') []" "[]" "[]"]
  by (simp add: pkg_requests)

theorem names_derived_witness:
  "release_tag pkg_inputs ''2.3.0'' = ''pkgA-v2.3.0''
   \<and> release_tag (pkg_inputs\<lparr>includeComponentInTag := Some False\<rparr>) ''2.3.0'' = ''v2.3.0''
   \<and> fst (release_branch (demo_env [] (Inr ''v1.2.3'') []) pkg_inputs []) = Inr ()
   \<and> ReposCreateRelease ''pkgA-v2.3.0'' ''Release 2.3.0'' demo_changelog False False
       \<in> set (requests (events_of [] (release_branch (demo_env [] (Inr ''v1.2.3'') []) pkg_inputs [])))
   \<and> PullsCreate ''chore: release 2.3.0''
        (''Release 2.3.0'' @ [CHR 0x0A, CHR 0x0A]
         @ ''This PR was generated by release-please for Gitea.'')
        ''release-please--main--2.3.0'' ''main''
       \<in> set (requests (events_of [] (pr_branch (demo_env [] (Inr ''v1.2.3'') []) pkg_inputs [])))"
proof -
  note t1 = names_derived[of "demo_env [] (Inr ''v1.2.3'') []" pkg_inputs "[]" "''pkgA''"
              "''2.3.0''" "[]"]
  note t2 = names_derived[of "demo_env [] (Inr ''v1.2.3'') []"
              "pkg_inputs\<lparr>includeComponentInTag := Some False\<rparr>" "[]" "''pkgA''"
              "''2.3.0''" "[]"]
  have tag1: "release_tag pkg_inputs ''2.3.0'' = ''pkgA-v2.3.0''"
    using t1[THEN conjunct2, THEN conjunct1] by simp
  have tag2: "release_tag (pkg_inputs\<lparr>includeComponentInTag := Some False\<rparr>) ''2.3.0'' = ''v2.3.0''"
    using t2[THEN conjunct2, THEN conjunct2, THEN conjunct1] by simp
  have ok: "fst (release_branch (demo_env [] (Inr ''v1.2.3'') []) pkg_inputs []) = Inr ()"
    by (simp add: release_simps)
  show ?thesis
    using tag1 tag2 ok by (simp add: pkg_requests)
qed

end
